theory Spec2Isabelle
  imports Main "HOL-Library.Word" "HOL-Library.Sublist"
begin

section \<open>The ledger: contract GhostDocumentRegistry\<close>

text \<open>
  The Solidity contract is embedded with explicit state passing. Value types keep their
  widths: an \<open>address\<close> is 160 bits, a \<open>uint256\<close> 256 bits; \<open>euint256\<close> and
  \<open>externalEuint256\<close> are \<open>bytes32\<close> handles. A Solidity \<open>string\<close> is a byte
  sequence, which is what an Isabelle \<open>string\<close> is. A \<open>mapping\<close> is a total function whose
  default is the zero value, a dynamic storage array is a list.
\<close>

type_synonym address = "160 word"
type_synonym uint256 = "256 word"
type_synonym euint256 = "256 word"
type_synonym externalEuint256 = "256 word"
type_synonym bytes = "8 word list"

record Document =
  name :: string
  encryptedBody :: string
  encryptedAccessKey :: euint256
  owner :: address
  lastEditor :: address
  createdAt :: uint256
  updatedAt :: uint256

datatype event =
    DocumentCreated uint256 address string
  | DocumentUpdated uint256 address string
  | EditorAllowed uint256 address

text \<open>
  The storage of the contract. \<open>aclAllowed\<close> is the coprocessor's authorization table
  (written by \<open>FHE.allow\<close> and \<open>FHE.allowThis\<close>), and \<open>logs\<close> the events emitted so
  far; both live outside the contract's own storage but change with its transactions.
\<close>

record state =
  nextDocumentId :: uint256
  documents :: "uint256 \<Rightarrow> Document"
  documentsByOwner :: "address \<Rightarrow> uint256 list"
  documentsByEditor :: "address \<Rightarrow> uint256 list"
  editors :: "uint256 \<Rightarrow> address \<Rightarrow> bool"
  aclAllowed :: "euint256 \<Rightarrow> address \<Rightarrow> bool"
  logs :: "event list"

text \<open>
  What a call sees of its transaction: \<open>msg.sender\<close>, \<open>block.timestamp\<close>,
  \<open>address(this)\<close>, and the coprocessor's check of a sealed input.

  The FHE library is not among the repository's files. \<open>FHE.fromExternal\<close> is the
  parameter \<open>fromExternal\<close>, the coprocessor's \<open>seal(value, proof)\<close> of the
  specification: it gives the handle to store, or \<open>None\<close> where the library reverts
  because the proof does not verify for the sender.
\<close>

record env =
  msg_sender :: address
  block_timestamp :: uint256
  address_this :: address
  fromExternal :: "externalEuint256 \<Rightarrow> bytes \<Rightarrow> address \<Rightarrow> euint256 option"

text \<open>
  A failing call reverts: \<open>Revert\<close> carries the reason string of a \<open>require\<close>,
  \<open>Panic 17\<close> is the checked-arithmetic overflow of Solidity 0.8 (code \<open>0x11\<close>),
  \<open>InvalidProof\<close> the revert inside \<open>FHE.fromExternal\<close>.
\<close>

datatype error = Revert string | Panic nat | InvalidProof

definition zeroDocument :: Document where
  "zeroDocument = \<lparr>name = [], encryptedBody = [], encryptedAccessKey = 0, owner = 0,
     lastEditor = 0, createdAt = 0, updatedAt = 0\<rparr>"

text \<open>The state after deployment: \<open>_nextDocumentId = 1\<close>, everything else zero.\<close>

definition init :: state where
  "init = \<lparr>nextDocumentId = 1, documents = (\<lambda>_. zeroDocument),
     documentsByOwner = (\<lambda>_. []), documentsByEditor = (\<lambda>_. []),
     editors = (\<lambda>_ _. False), aclAllowed = (\<lambda>_ _. False), logs = []\<rparr>"

text \<open>The modifier \<open>onlyExisting\<close>: the body runs only for a document whose owner is set.\<close>

definition onlyExisting :: "uint256 \<Rightarrow> state \<Rightarrow> (error + 'a) \<Rightarrow> error + 'a" where
  "onlyExisting documentId s body =
     (if owner (documents s documentId) \<noteq> 0 then body
      else Inl (Revert ''Document does not exist''))"

definition grantEditor :: "uint256 \<Rightarrow> address \<Rightarrow> state \<Rightarrow> state" where
  "grantEditor documentId editor s =
     (if \<not> editors s documentId editor then
        s\<lparr>editors := (editors s)(documentId := (editors s documentId)(editor := True)),
          documentsByEditor :=
            (documentsByEditor s)(editor := documentsByEditor s editor @ [documentId])\<rparr>
      else s)"

text \<open>
  Modelled from the spec: \<open>FHE.allow\<close> and \<open>FHE.allowThis\<close> are calls into the FHE
  library, which is not among the repository's files. They are the coprocessor's
  \<open>authorize(handle, identity)\<close> of the specification: the identity is added to the
  handle's authorization list, and the call does not fail.
\<close>

definition FHE_allow :: "euint256 \<Rightarrow> address \<Rightarrow> state \<Rightarrow> state" where
  "FHE_allow handle account s =
     s\<lparr>aclAllowed := (aclAllowed s)(handle := (aclAllowed s handle)(account := True))\<rparr>"

definition emit :: "event \<Rightarrow> state \<Rightarrow> state" where
  "emit ev s = s\<lparr>logs := logs s @ [ev]\<rparr>"

text \<open>
  \<open>createDocument\<close>. The post-increment \<open>_nextDocumentId++\<close> is checked: it reverts at
  \<open>2^256 - 1\<close>. All seven fields of the storage slot are assigned.
\<close>

definition createDocument ::
  "env \<Rightarrow> string \<Rightarrow> externalEuint256 \<Rightarrow> bytes \<Rightarrow> state \<Rightarrow> error + (uint256 \<times> state)" where
  "createDocument e nm encryptedAccessKeyIn inputProof s =
     (if \<not> 0 < length nm then Inl (Revert ''Name required'')
      else if nextDocumentId s = - 1 then Inl (Panic 17)
      else
        let documentId = nextDocumentId s;
            s1 = s\<lparr>nextDocumentId := nextDocumentId s + 1\<rparr>
        in case fromExternal e encryptedAccessKeyIn inputProof (msg_sender e) of
             None \<Rightarrow> Inl InvalidProof
           | Some storedKey \<Rightarrow>
               let s2 = s1\<lparr>documents := (documents s1)(documentId :=
                          (documents s1 documentId)\<lparr>
                            name := nm,
                            encryptedBody := [],
                            encryptedAccessKey := storedKey,
                            owner := msg_sender e,
                            lastEditor := msg_sender e,
                            createdAt := block_timestamp e,
                            updatedAt := block_timestamp e\<rparr>)\<rparr>;
                   s3 = s2\<lparr>documentsByOwner := (documentsByOwner s2)(msg_sender e :=
                          documentsByOwner s2 (msg_sender e) @ [documentId])\<rparr>;
                   s4 = grantEditor documentId (msg_sender e) s3;
                   s5 = FHE_allow storedKey (msg_sender e) s4;
                   s6 = FHE_allow storedKey (address_this e) s5;
                   s7 = emit (DocumentCreated documentId (msg_sender e) nm) s6
               in Inr (documentId, s7))"

definition updateDocument :: "env \<Rightarrow> uint256 \<Rightarrow> string \<Rightarrow> state \<Rightarrow> error + state" where
  "updateDocument e documentId body s =
     onlyExisting documentId s
       (if \<not> editors s documentId (msg_sender e) then Inl (Revert ''Not authorized'')
        else
          let s1 = s\<lparr>documents := (documents s)(documentId :=
                     (documents s documentId)\<lparr>
                       encryptedBody := body,
                       lastEditor := msg_sender e,
                       updatedAt := block_timestamp e\<rparr>)\<rparr>;
              s2 = emit (DocumentUpdated documentId (msg_sender e) body) s1
          in Inr s2)"

definition allowEditor :: "env \<Rightarrow> uint256 \<Rightarrow> address \<Rightarrow> state \<Rightarrow> error + state" where
  "allowEditor e documentId editor s =
     onlyExisting documentId s
       (if \<not> editor \<noteq> 0 then Inl (Revert ''Invalid editor'')
        else if \<not> owner (documents s documentId) = msg_sender e
          then Inl (Revert ''Only owner can allow'')
        else
          let s1 = grantEditor documentId editor s;
              s2 = FHE_allow (encryptedAccessKey (documents s documentId)) editor s1;
              s3 = emit (EditorAllowed documentId editor) s2
          in Inr s3)"

definition getDocument :: "uint256 \<Rightarrow> state \<Rightarrow> error + Document" where
  "getDocument documentId s = onlyExisting documentId s (Inr (documents s documentId))"

definition getDocumentsByOwner :: "address \<Rightarrow> state \<Rightarrow> uint256 list" where
  "getDocumentsByOwner ownerAddress s = documentsByOwner s ownerAddress"

definition getDocumentsForEditor :: "address \<Rightarrow> state \<Rightarrow> uint256 list" where
  "getDocumentsForEditor editor s = documentsByEditor s editor"

definition isEditor :: "uint256 \<Rightarrow> address \<Rightarrow> state \<Rightarrow> error + bool" where
  "isEditor documentId account s = onlyExisting documentId s (Inr (editors s documentId account))"

subsection \<open>Transactions\<close>

text \<open>
  A transaction is one external call of a mutating function. The ledger commits the new
  state when the call returns and keeps the old one when it reverts.
\<close>

datatype call =
    CreateDocument string externalEuint256 bytes
  | UpdateDocument uint256 string
  | AllowEditor uint256 address

fun dispatch :: "env \<Rightarrow> call \<Rightarrow> state \<Rightarrow> error + (uint256 option \<times> state)" where
  "dispatch e (CreateDocument nm h p) s =
     (case createDocument e nm h p s of Inl err \<Rightarrow> Inl err
      | Inr (documentId, s') \<Rightarrow> Inr (Some documentId, s'))"
| "dispatch e (UpdateDocument documentId body) s =
     (case updateDocument e documentId body s of Inl err \<Rightarrow> Inl err
      | Inr s' \<Rightarrow> Inr (None, s'))"
| "dispatch e (AllowEditor documentId editor) s =
     (case allowEditor e documentId editor s of Inl err \<Rightarrow> Inl err
      | Inr s' \<Rightarrow> Inr (None, s'))"

definition execute :: "env \<times> call \<Rightarrow> state \<Rightarrow> state" where
  "execute tx s = (case dispatch (fst tx) (snd tx) s of Inl _ \<Rightarrow> s | Inr (_, s') \<Rightarrow> s')"

fun run :: "(env \<times> call) list \<Rightarrow> state \<Rightarrow> state" where
  "run [] s = s"
| "run (tx # txs) s = run txs (execute tx s)"

text \<open>The ids that the successful \<open>createDocument\<close> calls of a run return, in order.\<close>

fun returnedIds :: "(env \<times> call) list \<Rightarrow> state \<Rightarrow> uint256 list" where
  "returnedIds [] s = []"
| "returnedIds (tx # txs) s =
     (case dispatch (fst tx) (snd tx) s of
        Inr (Some documentId, s') \<Rightarrow> documentId # returnedIds txs s'
      | Inr (None, s') \<Rightarrow> returnedIds txs s'
      | Inl _ \<Rightarrow> returnedIds txs s)"

text \<open>
  A state is reachable when a sequence of transactions leads to it from the deployed
  contract.
\<close>

definition reachable :: "state \<Rightarrow> bool" where
  "reachable s = (\<exists>txs. s = run txs init)"

text \<open>
  No account signs for the zero address, so \<open>msg.sender\<close> of a transaction on the
  chain is never \<open>address(0)\<close>: \<open>validTxs\<close> are the sequences of such transactions.
\<close>

definition validTxs :: "(env \<times> call) list \<Rightarrow> bool" where
  "validTxs txs = list_all (\<lambda>tx. msg_sender (fst tx) \<noteq> 0) txs"

text \<open>
  Modelled from the spec: the contract reverts with reason strings, the specification
  names error kinds. The taxonomy of the specification maps them so: an empty name and a
  zero identity are \<open>InvalidArgument\<close>, an unknown document is \<open>NotFound\<close>, a non-editor
  update and a non-owner share are \<open>NotAuthorized\<close>.
\<close>

datatype errorKind = InvalidArgument | NotFound | NotAuthorized | InvalidProofKind | Overflow | Other

definition kindOf :: "error \<Rightarrow> errorKind" where
  "kindOf err =
     (case err of
        Revert r \<Rightarrow>
          (if r = ''Name required'' \<or> r = ''Invalid editor'' then InvalidArgument
           else if r = ''Document does not exist'' then NotFound
           else if r = ''Not authorized'' \<or> r = ''Only owner can allow'' then NotAuthorized
           else Other)
      | Panic _ \<Rightarrow> Overflow
      | InvalidProof \<Rightarrow> InvalidProofKind)"

subsection \<open>Invariants\<close>

text \<open>
  Two invariants of every reachable state. \<open>allocated\<close>: an existing document has an
  id below the counter and its owner among its editors. \<open>editorIndexed\<close>: the index
  of an account lists exactly the documents it is an editor of, each once.
\<close>

definition allocated :: "state \<Rightarrow> bool" where
  "allocated s \<longleftrightarrow>
     (\<forall>i. owner (documents s i) \<noteq> 0 \<longrightarrow>
        i < nextDocumentId s \<and> editors s i (owner (documents s i)))"

definition editorIndexed :: "state \<Rightarrow> bool" where
  "editorIndexed s \<longleftrightarrow>
     (\<forall>a i. i \<in> set (documentsByEditor s a) \<longleftrightarrow> editors s i a) \<and>
     (\<forall>a. distinct (documentsByEditor s a))"

text \<open>
  The invariant of the states that valid transactions reach. Existing documents have ids
  below the counter, the owner of an existing document is one of its editors, the two
  indices list exactly the owned and the editable documents, only existing documents have
  editors, and no index repeats an id.
\<close>

definition invariant :: "state \<Rightarrow> bool" where
  "invariant s \<longleftrightarrow>
     (\<forall>i. owner (documents s i) \<noteq> 0 \<longrightarrow> i < nextDocumentId s) \<and>
     (\<forall>i. owner (documents s i) \<noteq> 0 \<longrightarrow> editors s i (owner (documents s i))) \<and>
     (\<forall>a i. i \<in> set (documentsByOwner s a) \<longleftrightarrow> owner (documents s i) = a \<and> a \<noteq> 0) \<and>
     (\<forall>a i. i \<in> set (documentsByEditor s a) \<longleftrightarrow> editors s i a) \<and>
     (\<forall>a i. editors s i a \<longrightarrow> owner (documents s i) \<noteq> 0) \<and>
     (\<forall>a. distinct (documentsByOwner s a)) \<and>
     (\<forall>a. distinct (documentsByEditor s a))"


section \<open>The client: payload encryption (utils/crypto.ts)\<close>

text \<open>
  A JavaScript string is a sequence of 16-bit code units; \<open>js\<close> writes an ASCII literal
  as one. A \<open>Uint8Array\<close> is a list of bytes.
\<close>

type_synonym jsstring = "16 word list"

definition js :: "string \<Rightarrow> jsstring" where
  "js s = map (\<lambda>c. of_nat (of_char c)) s"

text \<open>
  The functions of the Web platform that the module calls are parameters of the model:
  \<open>encoder.encode\<close> and \<open>decoder.decode\<close> (UTF-8), \<open>btoa\<close> and \<open>atob\<close>
  (\<open>None\<close> where they throw \<open>InvalidCharacterError\<close>), the SHA-256 digest, and AES-GCM
  under a raw key and a nonce: \<open>AES_GCM_seal\<close> gives the ciphertext followed by the
  tag, \<open>AES_GCM_open\<close> gives \<open>None\<close> where the tag does not verify. The exceptions
  that reach the callers of \<open>encryptBody\<close> and \<open>decryptBody\<close> are the platform's:
  the module catches and renames nothing.
\<close>

record platform =
  TextEncoder_encode :: "jsstring \<Rightarrow> bytes"
  TextDecoder_decode :: "bytes \<Rightarrow> jsstring"
  btoa :: "jsstring \<Rightarrow> jsstring option"
  atob :: "jsstring \<Rightarrow> jsstring option"
  digest_SHA256 :: "bytes \<Rightarrow> bytes"
  AES_GCM_seal :: "bytes \<Rightarrow> bytes \<Rightarrow> bytes \<Rightarrow> bytes"
  AES_GCM_open :: "bytes \<Rightarrow> bytes \<Rightarrow> bytes \<Rightarrow> bytes option"

datatype js_error = OperationError | InvalidCharacterError

subsection \<open>hexToBytes\<close>

text \<open>
  \<open>parseInt(s, 16)\<close> as ECMAScript defines it: leading white space is skipped, a sign
  and then a prefix \<open>0x\<close> or \<open>0X\<close> are read, and the longest run of hexadecimal
  digits that follows is the value; with no digit the result is \<open>NaN\<close>, here \<open>None\<close>.
\<close>

definition isWhiteSpace :: "16 word \<Rightarrow> bool" where
  "isWhiteSpace c \<longleftrightarrow>
     c \<in> {0x09, 0x0A, 0x0B, 0x0C, 0x0D, 0x20, 0xA0, 0x1680, 0x2028, 0x2029, 0x202F, 0x205F,
          0x3000, 0xFEFF} \<or> (0x2000 \<le> c \<and> c \<le> 0x200A)"

definition hexDigit :: "16 word \<Rightarrow> nat option" where
  "hexDigit c =
     (if 0x30 \<le> c \<and> c \<le> 0x39 then Some (unat c - 0x30)
      else if 0x61 \<le> c \<and> c \<le> 0x66 then Some (unat c - 0x61 + 10)
      else if 0x41 \<le> c \<and> c \<le> 0x46 then Some (unat c - 0x41 + 10)
      else None)"

definition hexValue :: "jsstring \<Rightarrow> int" where
  "hexValue z =
     foldl (\<lambda>n c. case hexDigit c of Some d \<Rightarrow> 16 * n + int d | None \<Rightarrow> n) 0 z"

definition parseInt16 :: "jsstring \<Rightarrow> int option" where
  "parseInt16 inputString =
     (let S = dropWhile isWhiteSpace inputString;
          sign = (if S \<noteq> [] \<and> hd S = 0x2D then - 1 else 1);
          S1 = (if S \<noteq> [] \<and> (hd S = 0x2B \<or> hd S = 0x2D) then tl S else S);
          S2 = (case S1 of
                  a # b # r \<Rightarrow> if a = 0x30 \<and> (b = 0x78 \<or> b = 0x58) then r else S1
                | _ \<Rightarrow> S1);
          Z = takeWhile (\<lambda>c. hexDigit c \<noteq> None) S2
      in if Z = [] then None else Some (sign * hexValue Z))"

text \<open>A store into a \<open>Uint8Array\<close>: \<open>NaN\<close> becomes 0, an integer is taken modulo 256.\<close>

definition toUint8 :: "int option \<Rightarrow> 8 word" where
  "toUint8 v = (case v of None \<Rightarrow> 0 | Some n \<Rightarrow> word_of_int n)"

text \<open>
  The loop of \<open>hexToBytes\<close>: each step parses two code units and stores one byte. The
  array has \<open>cleanHex.length / 2\<close> elements, rounded down, so for an odd length the last
  step stores beyond the end of the array, which a typed array ignores.
\<close>

fun hexPairs :: "jsstring \<Rightarrow> bytes" where
  "hexPairs (a # b # r) = toUint8 (parseInt16 [a, b]) # hexPairs r"
| "hexPairs [a] = []"
| "hexPairs [] = []"

text \<open>\<open>hexValue.replace(/^0x/, "")\<close> removes a leading lower-case \<open>0x\<close>.\<close>

definition hexToBytes :: "jsstring \<Rightarrow> bytes" where
  "hexToBytes hexValueIn =
     (let cleanHex = (case hexValueIn of
                        a # b # r \<Rightarrow> if a = 0x30 \<and> b = 0x78 then r else hexValueIn
                      | _ \<Rightarrow> hexValueIn)
      in hexPairs cleanHex)"

subsection \<open>Base64 and the cipher\<close>


definition base64ToBytes :: "platform \<Rightarrow> jsstring \<Rightarrow> js_error + bytes" where
  "base64ToBytes W base64 =
     (case atob W base64 of
        None \<Rightarrow> Inl InvalidCharacterError
      | Some binary \<Rightarrow> Inr (map ucast binary))"

text \<open>The imported \<open>CryptoKey\<close> is the raw key: the SHA-256 digest of the key bytes.\<close>

definition deriveKey :: "platform \<Rightarrow> jsstring \<Rightarrow> bytes" where
  "deriveKey W accessKey = (let keyBytes = hexToBytes accessKey in digest_SHA256 W keyBytes)"


definition subtle_decrypt :: "platform \<Rightarrow> bytes \<Rightarrow> bytes \<Rightarrow> bytes \<Rightarrow> js_error + bytes" where
  "subtle_decrypt W key iv ciphertext =
     (if length ciphertext < 16 then Inl OperationError
      else case AES_GCM_open W key iv ciphertext of
             None \<Rightarrow> Inl OperationError
           | Some plaintext \<Rightarrow> Inr plaintext)"


definition decryptBody :: "platform \<Rightarrow> jsstring \<Rightarrow> jsstring \<Rightarrow> js_error + jsstring" where
  "decryptBody W cipherText accessKey =
     (let key = deriveKey W accessKey
      in case base64ToBytes W cipherText of
           Inl err \<Rightarrow> Inl err
         | Inr combined \<Rightarrow>
             let iv = take 12 combined;
                 payload = drop 12 combined
             in case subtle_decrypt W key iv payload of
                  Inl err \<Rightarrow> Inl err
                | Inr plainBuffer \<Rightarrow> Inr (TextDecoder_decode W plainBuffer))"


section \<open>The client: re-encryption handshake (components/DocumentApp.tsx)\<close>

text \<open>
  \<open>decryptAccessKey\<close> is a callback of the React component. What it calls outside the
  repository are parameters of the model, as they are for the payload codec: the relayer
  SDK's instance (\<open>generateKeypair\<close>, \<open>createEIP712\<close>, \<open>userDecrypt\<close>), the wallet's
  signer (\<open>signTypedData\<close>), \<open>getAddress\<close>, \<open>Number\<close> and the clock. A call that
  throws, or a promise that rejects, gives \<open>None\<close>.

  \<open>generateKeypair\<close> draws randomness: it is a function of the number of keypairs
  drawn before, which the session counts in \<open>keypairsDrawn\<close>.
\<close>

record Keypair =
  publicKey :: jsstring
  privateKey :: jsstring

record EIP712 =
  eip_domain :: jsstring
  eip_types_UserDecryptRequestVerification :: jsstring
  eip_message :: jsstring

record HandleContractPair =
  handle :: jsstring
  contractAddress :: jsstring

record UserDecryptArgs =
  arg_handleContractPairs :: "HandleContractPair list"
  arg_privateKey :: jsstring
  arg_publicKey :: jsstring
  arg_signature :: jsstring
  arg_contractAddresses :: "jsstring list"
  arg_userAddress :: jsstring
  arg_startTimeStamp :: jsstring
  arg_durationDays :: jsstring

record FhevmInstance =
  generateKeypair :: "nat \<Rightarrow> Keypair"
  createEIP712 :: "jsstring \<Rightarrow> jsstring list \<Rightarrow> jsstring \<Rightarrow> jsstring \<Rightarrow> EIP712 option"
  userDecrypt :: "UserDecryptArgs \<Rightarrow> (jsstring \<Rightarrow> nat option) option"

record Signer =
  signTypedData :: "jsstring \<Rightarrow> jsstring \<Rightarrow> jsstring \<Rightarrow> jsstring option"

text \<open>
  What the closure of the callback holds: the results of the hooks \<open>useZamaInstance\<close>,
  \<open>useAccount\<close> and \<open>useEthersSigner\<close> (\<open>None\<close> where the source tests them as
  missing), the memoized contract address, and the two library functions.
\<close>

record hooks =
  fhevmInstance :: "FhevmInstance option"
  accountAddress :: "jsstring option"
  signerPromise :: "Signer option"
  normalizedContract :: jsstring
  getAddress :: "jsstring \<Rightarrow> jsstring option"
  toNumber :: "nat \<Rightarrow> nat"

record DocumentRecord =
  doc_id :: nat
  doc_encryptedAccessKey :: jsstring

text \<open>
  A session is the component state that the callback writes (\<open>decryptedKeys\<close>,
  \<open>messages\<close>, \<open>keyLoading\<close>, keyed by \<open>Number(doc.id)\<close>) together with the
  record of its calls to the SDK and the wallet, in order. Console output is not part
  of the model.
\<close>

datatype effect =
    GenerateKeypair nat
  | CreateEIP712 jsstring "jsstring list" jsstring jsstring
  | SignTypedData jsstring jsstring jsstring
  | UserDecrypt UserDecryptArgs

record session =
  decryptedKeys :: "nat \<rightharpoonup> jsstring"
  messages :: "nat \<rightharpoonup> jsstring"
  keyLoading :: "nat \<rightharpoonup> bool"
  keypairsDrawn :: nat
  calls :: "effect list"

text \<open>
  \<open>n.toString()\<close> and \<open>n.toString(16)\<close> of a non-negative integer, \<open>padStart\<close>, and
  \<open>s.replace('0x', '')\<close>, which removes the first occurrence of \<open>0x\<close>.
\<close>

fun decimal :: "nat \<Rightarrow> jsstring" where
  "decimal n = (if n < 10 then [0x30 + of_nat n]
                else decimal (n div 10) @ [0x30 + of_nat (n mod 10)])"

declare decimal.simps [simp del]

definition hexChar :: "nat \<Rightarrow> 16 word" where
  "hexChar d = (if d < 10 then 0x30 + of_nat d else 0x61 + of_nat (d - 10))"

fun toString16 :: "nat \<Rightarrow> jsstring" where
  "toString16 n = (if n < 16 then [hexChar n]
                   else toString16 (n div 16) @ [hexChar (n mod 16)])"

declare toString16.simps [simp del]

definition padStart :: "nat \<Rightarrow> 16 word \<Rightarrow> jsstring \<Rightarrow> jsstring" where
  "padStart n c s = replicate (n - length s) c @ s"

fun replaceFirst0x :: "jsstring \<Rightarrow> jsstring" where
  "replaceFirst0x (a # b # r) = (if a = 0x30 \<and> b = 0x78 then r else a # replaceFirst0x (b # r))"
| "replaceFirst0x s = s"

definition setMessage :: "hooks \<Rightarrow> nat \<Rightarrow> jsstring \<Rightarrow> session \<Rightarrow> session" where
  "setMessage h docId v st = st\<lparr>messages := (messages st)(toNumber h docId \<mapsto> v)\<rparr>"

definition setKeyLoading :: "hooks \<Rightarrow> nat \<Rightarrow> bool \<Rightarrow> session \<Rightarrow> session" where
  "setKeyLoading h docId v st = st\<lparr>keyLoading := (keyLoading st)(toNumber h docId \<mapsto> v)\<rparr>"

definition setDecryptedKeys :: "hooks \<Rightarrow> nat \<Rightarrow> jsstring \<Rightarrow> session \<Rightarrow> session" where
  "setDecryptedKeys h docId v st = st\<lparr>decryptedKeys := (decryptedKeys st)(toNumber h docId \<mapsto> v)\<rparr>"

definition called :: "effect \<Rightarrow> session \<Rightarrow> session" where
  "called c st = st\<lparr>calls := calls st @ [c]\<rparr>"

text \<open>
  The \<open>try\<close> block: \<open>None\<close> where it throws. \<open>now\<close> is \<open>Date.now()\<close>, in
  milliseconds. A decrypted value of 0 is falsy and throws like a missing one.
\<close>

definition tryDecrypt ::
  "hooks \<Rightarrow> FhevmInstance \<Rightarrow> jsstring \<Rightarrow> Signer \<Rightarrow> nat \<Rightarrow> DocumentRecord \<Rightarrow> session \<Rightarrow>
   jsstring option \<times> session" where
  "tryDecrypt h inst addr signer now doc st =
     (let keypair = generateKeypair inst (keypairsDrawn st);
          st1 = called (GenerateKeypair (keypairsDrawn st))
                  (st\<lparr>keypairsDrawn := keypairsDrawn st + 1\<rparr>);
          handleContractPairs =
            [\<lparr>handle = doc_encryptedAccessKey doc, contractAddress = normalizedContract h\<rparr>];
          startTimeStamp = decimal (now div 1000);
          durationDays = js ''7'';
          contractAddresses = [normalizedContract h];
          st2 = called (CreateEIP712 (publicKey keypair) contractAddresses startTimeStamp
                  durationDays) st1
      in case createEIP712 inst (publicKey keypair) contractAddresses startTimeStamp durationDays of
           None \<Rightarrow> (None, st2)
         | Some eip712 \<Rightarrow>
             let st3 = called (SignTypedData (eip_domain eip712)
                         (eip_types_UserDecryptRequestVerification eip712) (eip_message eip712)) st2
             in case signTypedData signer (eip_domain eip712)
                       (eip_types_UserDecryptRequestVerification eip712) (eip_message eip712) of
                  None \<Rightarrow> (None, st3)
                | Some signature \<Rightarrow>
                    let args = \<lparr>arg_handleContractPairs = handleContractPairs,
                                arg_privateKey = privateKey keypair,
                                arg_publicKey = publicKey keypair,
                                arg_signature = replaceFirst0x signature,
                                arg_contractAddresses = contractAddresses,
                                arg_userAddress = addr,
                                arg_startTimeStamp = startTimeStamp,
                                arg_durationDays = durationDays\<rparr>;
                        st4 = called (UserDecrypt args) st3
                    in case userDecrypt inst args of
                         None \<Rightarrow> (None, st4)
                       | Some result \<Rightarrow>
                           (case result (doc_encryptedAccessKey doc) of
                              None \<Rightarrow> (None, st4)
                            | Some decryptedValue \<Rightarrow>
                                if decryptedValue = 0 then (None, st4)
                                else
                                  let keyHex = js ''0x'' @ padStart 40 0x30 (toString16 decryptedValue)
                                  in case getAddress h keyHex of
                                       None \<Rightarrow> (None, st4)
                                     | Some checksumKey \<Rightarrow>
                                         (Some checksumKey,
                                          setMessage h (doc_id doc) (js ''Access key decrypted'')
                                            (setDecryptedKeys h (doc_id doc) checksumKey st4))))"

text \<open>
  \<open>decryptAccessKey\<close>: the two guards, then the \<open>try\<close> block with its \<open>catch\<close>
  (the message of failure) and its \<open>finally\<close> (the loading flag).
\<close>

definition decryptAccessKey ::
  "hooks \<Rightarrow> nat \<Rightarrow> DocumentRecord \<Rightarrow> session \<Rightarrow> jsstring option \<times> session" where
  "decryptAccessKey h now doc st =
     (case (fhevmInstance h, accountAddress h) of
        (Some inst, Some addr) \<Rightarrow>
          (case signerPromise h of
             None \<Rightarrow> (None, setMessage h (doc_id doc) (js ''Connect a signer to decrypt.'') st)
           | Some signer \<Rightarrow>
               let st1 = setKeyLoading h (doc_id doc) True st;
                   (r, st2) = tryDecrypt h inst addr signer now doc st1;
                   st3 = (case r of
                            None \<Rightarrow> setMessage h (doc_id doc) (js ''Failed to decrypt access key.'') st2
                          | Some _ \<Rightarrow> st2)
               in (r, setKeyLoading h (doc_id doc) False st3))
      | _ \<Rightarrow> (None, setMessage h (doc_id doc) (js ''Encryption service not ready.'') st))"

section \<open>Examples\<close>

text \<open>Concrete accounts and transactions, on which the theorems below are instantiated.\<close>

definition alice :: address where "alice = 0xA11CE"
definition bob :: address where "bob = 0xB0B"
definition carol :: address where "carol = 0xCA401"

definition exampleEnv :: "address \<Rightarrow> uint256 \<Rightarrow> env" where
  "exampleEnv a t = \<lparr>msg_sender = a, block_timestamp = t, address_this = 0xC0FFEE,
     fromExternal = (\<lambda>h p a. Some h)\<rparr>"

definition exampleTxs :: "(env \<times> call) list" where
  "exampleTxs = [(exampleEnv alice 1000, CreateDocument ''First Doc'' 7 [])]"

definition shareTxs :: "(env \<times> call) list" where
  "shareTxs = [(exampleEnv alice 2000, AllowEditor 1 bob),
               (exampleEnv bob 3000, UpdateDocument 1 ''updated-by-editor'')]"


definition createTxs :: "(env \<times> call) list" where
  "createTxs = [(exampleEnv alice 1000, CreateDocument ''First Doc'' 7 []),
                (exampleEnv bob 1500, CreateDocument [] 8 []),
                (exampleEnv alice 2000, AllowEditor 1 bob),
                (exampleEnv bob 3000, CreateDocument ''Second'' 9 [])]"

text \<open>
  A small platform on which the theorems on the payload codec are instantiated: Latin-1
  for the text codec, the identity for Base64 and for the digest, and an authenticated
  cipher that appends a 16-byte tag made of the key and the nonce.
\<close>

definition exampleTag :: "bytes \<Rightarrow> bytes \<Rightarrow> bytes" where
  "exampleTag key iv = take 16 (key @ iv @ replicate 16 0)"


definition examplePlatform :: platform where
  "examplePlatform =
     \<lparr>TextEncoder_encode = map ucast,
      TextDecoder_decode = map ucast,
      btoa = (\<lambda>s. if list_all (\<lambda>c. c \<le> 0xFF) s then Some s else None),
      atob = Some,
      digest_SHA256 = id,
      AES_GCM_seal = (\<lambda>key iv m. m @ exampleTag key iv),
      AES_GCM_open = (\<lambda>key iv c.
        if 16 \<le> length c \<and> drop (length c - 16) c = exampleTag key iv
        then Some (take (length c - 16) c) else None)\<rparr>"

text \<open>
  An SDK instance and a signer for the handshake: the keypair of draw \<open>n\<close> is named
  after \<open>n\<close>, the typed data concatenates what it is built from, the signature is the
  message behind \<open>0x\<close>, and the relayer returns the key \<open>0x1234\<close> for the handle.
\<close>

definition exampleInstance :: FhevmInstance where
  "exampleInstance =
     \<lparr>generateKeypair = (\<lambda>n. \<lparr>publicKey = js ''pk'' @ decimal n,
                                privateKey = js ''sk'' @ decimal n\<rparr>),
      createEIP712 = (\<lambda>pub cs start dur.
        Some \<lparr>eip_domain = js ''Decryption'',
              eip_types_UserDecryptRequestVerification = js ''UserDecryptRequestVerification'',
              eip_message = pub @ concat cs @ start @ dur\<rparr>),
      userDecrypt = (\<lambda>args. Some (\<lambda>x. if x = js ''0xhandle'' then Some 0x1234 else None))\<rparr>"

definition exampleSigner :: Signer where
  "exampleSigner = \<lparr>signTypedData = (\<lambda>d t m. Some (js ''0x'' @ m))\<rparr>"

definition exampleHooks :: hooks where
  "exampleHooks =
     \<lparr>fhevmInstance = Some exampleInstance,
      accountAddress = Some (js ''0xA11CE''),
      signerPromise = Some exampleSigner,
      normalizedContract = js ''0xC0FFEE'',
      getAddress = Some,
      toNumber = id\<rparr>"

text \<open>The access key that the example relayer returns, as \<open>decryptAccessKey\<close> formats it.\<close>

definition exampleKey :: jsstring where
  "exampleKey = js ''0x'' @ replicate 36 0x30 @ js ''1234''"

definition exampleDoc :: DocumentRecord where
  "exampleDoc = \<lparr>doc_id = 1, doc_encryptedAccessKey = js ''0xhandle''\<rparr>"

definition emptySession :: session where
  "emptySession = \<lparr>decryptedKeys = Map.empty, messages = Map.empty, keyLoading = Map.empty,
     keypairsDrawn = 0, calls = []\<rparr>"




section \<open>Properties of the ledger\<close>

subsection \<open>Auxiliary facts\<close>

lemma word_less_succ: "(n :: 'a::len word) \<noteq> - 1 \<Longrightarrow> n < n + 1"
  by (metis inc_less_eq_triv_imp linorder_less_linear word_le_less_eq)

lemma unat_succ: "(n :: 'a::len word) \<noteq> - 1 \<Longrightarrow> unat (n + 1) = Suc (unat n)"
  by (simp add: add.commute add_eq_0_iff unatSuc)

lemma invariant_init: "invariant init"
  by (simp add: invariant_def init_def zeroDocument_def)

lemma grantEditor_fields:
  "nextDocumentId (grantEditor i a s) = nextDocumentId s"
  "documents (grantEditor i a s) = documents s"
  "documentsByOwner (grantEditor i a s) = documentsByOwner s"
  "aclAllowed (grantEditor i a s) = aclAllowed s"
  "logs (grantEditor i a s) = logs s"
  "editors (grantEditor i a s) = (editors s)(i := (editors s i)(a := True))"
  "documentsByEditor (grantEditor i a s) =
     (if editors s i a then documentsByEditor s
      else (documentsByEditor s)(a := documentsByEditor s a @ [i]))"
  by (auto simp: grantEditor_def fun_eq_iff)

lemma updateDocument_Inr:
  assumes "updateDocument e i body s = Inr s'"
  shows "owner (documents s i) \<noteq> 0" and "editors s i (msg_sender e)"
    and "s' = s\<lparr>documents := (documents s)(i := (documents s i)\<lparr>encryptedBody := body,
            lastEditor := msg_sender e, updatedAt := block_timestamp e\<rparr>),
          logs := logs s @ [DocumentUpdated i (msg_sender e) body]\<rparr>"
  using assms
  by (auto simp: updateDocument_def onlyExisting_def emit_def Let_def split: if_splits)

lemma allowEditor_Inr:
  assumes "allowEditor e i a s = Inr s'"
  shows "owner (documents s i) \<noteq> 0" and "a \<noteq> 0" and "owner (documents s i) = msg_sender e"
    and "s' = emit (EditorAllowed i a)
           (FHE_allow (encryptedAccessKey (documents s i)) a (grantEditor i a s))"
  using assms
  by (auto simp: allowEditor_def onlyExisting_def Let_def split: if_splits)

lemma Document_assign_all:
  "(d :: Document)\<lparr>name := n, encryptedBody := b, encryptedAccessKey := k, owner := ow,
      lastEditor := le, createdAt := c, updatedAt := u\<rparr> =
   \<lparr>name = n, encryptedBody = b, encryptedAccessKey = k, owner = ow,
      lastEditor = le, createdAt = c, updatedAt = u\<rparr>"
  by (cases d) simp

lemma createDocument_Inr:
  assumes "createDocument e nm h p s = Inr (i, s')"
  shows "nm \<noteq> []" and "nextDocumentId s \<noteq> - 1" and "i = nextDocumentId s"
    and "\<exists>k. fromExternal e h p (msg_sender e) = Some k \<and>
          s' = emit (DocumentCreated i (msg_sender e) nm)
            (FHE_allow k (address_this e) (FHE_allow k (msg_sender e)
              (grantEditor i (msg_sender e)
                (s\<lparr>nextDocumentId := nextDocumentId s + 1,
                   documents := (documents s)(i := \<lparr>name = nm, encryptedBody = [],
                     encryptedAccessKey = k, owner = msg_sender e, lastEditor = msg_sender e,
                     createdAt = block_timestamp e, updatedAt = block_timestamp e\<rparr>),
                   documentsByOwner := (documentsByOwner s)(msg_sender e :=
                     documentsByOwner s (msg_sender e) @ [i])\<rparr>))))"
  using assms
  by (auto simp: createDocument_def Let_def Document_assign_all split: if_splits option.splits)

lemma emit_fields:
  "nextDocumentId (emit ev s) = nextDocumentId s"
  "documents (emit ev s) = documents s"
  "documentsByOwner (emit ev s) = documentsByOwner s"
  "documentsByEditor (emit ev s) = documentsByEditor s"
  "editors (emit ev s) = editors s"
  "aclAllowed (emit ev s) = aclAllowed s"
  "logs (emit ev s) = logs s @ [ev]"
  by (simp_all add: emit_def)

lemma FHE_allow_fields:
  "nextDocumentId (FHE_allow k a s) = nextDocumentId s"
  "documents (FHE_allow k a s) = documents s"
  "documentsByOwner (FHE_allow k a s) = documentsByOwner s"
  "documentsByEditor (FHE_allow k a s) = documentsByEditor s"
  "editors (FHE_allow k a s) = editors s"
  "aclAllowed (FHE_allow k a s) = (aclAllowed s)(k := (aclAllowed s k)(a := True))"
  "logs (FHE_allow k a s) = logs s"
  by (simp_all add: FHE_allow_def)

lemmas fields = emit_fields FHE_allow_fields grantEditor_fields

lemma invariant_update:
  assumes "invariant s" "updateDocument e i body s = Inr s'"
  shows "invariant s'"
  using assms(1) updateDocument_Inr[OF assms(2)]
  by (auto simp: invariant_def)

lemma invariant_allow:
  assumes "invariant s" "allowEditor e i a s = Inr s'"
  shows "invariant s'"
proof -
  note r = allowEditor_Inr[OF assms(2)]
  have ed: "editors s i (msg_sender e)"
    using assms(1) r(1,3) unfolding invariant_def by metis
  show ?thesis
    using assms(1) r(1,2,3) ed unfolding invariant_def r(4)
    by (auto simp: fields)
qed

lemma invariant_create:
  assumes "invariant s" "createDocument e nm h p s = Inr (i, s')" "msg_sender e \<noteq> 0"
  shows "invariant s'"
proof -
  from createDocument_Inr[OF assms(2)] obtain k where
    n: "nextDocumentId s \<noteq> - 1" and i: "i = nextDocumentId s"
    and s': "s' = emit (DocumentCreated i (msg_sender e) nm)
            (FHE_allow k (address_this e) (FHE_allow k (msg_sender e)
              (grantEditor i (msg_sender e)
                (s\<lparr>nextDocumentId := nextDocumentId s + 1,
                   documents := (documents s)(i := \<lparr>name = nm, encryptedBody = [],
                     encryptedAccessKey = k, owner = msg_sender e, lastEditor = msg_sender e,
                     createdAt = block_timestamp e, updatedAt = block_timestamp e\<rparr>),
                   documentsByOwner := (documentsByOwner s)(msg_sender e :=
                     documentsByOwner s (msg_sender e) @ [i])\<rparr>))))"
    by blast
  have fresh: "owner (documents s i) = 0"
    using assms(1) i unfolding invariant_def by (metis less_irrefl)
  have noed: "\<not> editors s i a" for a
    using assms(1) fresh unfolding invariant_def by blast
  have lt: "j < nextDocumentId s \<Longrightarrow> j < nextDocumentId s + 1" for j
    using word_less_succ[OF n] by simp
  show ?thesis
    using assms(1) assms(3) fresh noed lt word_less_succ[OF n] unfolding invariant_def s' i
    by (auto simp: fields)
qed


lemma dispatch_Inl: "dispatch e c s = Inl err \<Longrightarrow> execute (e, c) s = s"
  by (simp add: execute_def)

lemma dispatch_Inr: "dispatch e c s = Inr (r, s') \<Longrightarrow> execute (e, c) s = s'"
  by (simp add: execute_def)

lemma invariant_execute:
  assumes "invariant s" "msg_sender (fst tx) \<noteq> 0"
  shows "invariant (execute tx s)"
proof (cases tx)
  case (Pair e c)
  show ?thesis
  proof (cases c)
    case (CreateDocument nm h p)
    then show ?thesis using assms Pair invariant_create[of s e nm h p]
      by (auto simp: execute_def split: sum.splits)
  next
    case (UpdateDocument i body)
    then show ?thesis using assms Pair invariant_update[of s e i body]
      by (auto simp: execute_def split: sum.splits)
  next
    case (AllowEditor i a)
    then show ?thesis using assms Pair invariant_allow[of s e i a]
      by (auto simp: execute_def split: sum.splits)
  qed
qed

lemma invariant_run: "invariant s \<Longrightarrow> validTxs txs \<Longrightarrow> invariant (run txs s)"
  by (induction txs arbitrary: s) (auto simp: validTxs_def invariant_execute)

lemma valid_invariant: "validTxs txs \<Longrightarrow> invariant (run txs init)"
  by (simp add: invariant_run invariant_init)

lemma run_append: "run (xs @ ys) s = run ys (run xs s)"
  by (induction xs arbitrary: s) auto

lemma reachable_run: "reachable s \<Longrightarrow> reachable (run txs s)"
  unfolding reachable_def by (metis run_append)

lemma execute_cases:
  obtains (reverted) "execute tx s = s"
  | (created) nm h p k where "snd tx = CreateDocument nm h p"
      "fromExternal (fst tx) h p (msg_sender (fst tx)) = Some k"
      "nextDocumentId s \<noteq> - 1"
      "execute tx s = emit (DocumentCreated (nextDocumentId s) (msg_sender (fst tx)) nm)
         (FHE_allow k (address_this (fst tx)) (FHE_allow k (msg_sender (fst tx))
           (grantEditor (nextDocumentId s) (msg_sender (fst tx))
             (s\<lparr>nextDocumentId := nextDocumentId s + 1,
                documents := (documents s)(nextDocumentId s := \<lparr>name = nm, encryptedBody = [],
                  encryptedAccessKey = k, owner = msg_sender (fst tx),
                  lastEditor = msg_sender (fst tx),
                  createdAt = block_timestamp (fst tx),
                  updatedAt = block_timestamp (fst tx)\<rparr>),
                documentsByOwner := (documentsByOwner s)(msg_sender (fst tx) :=
                  documentsByOwner s (msg_sender (fst tx)) @ [nextDocumentId s])\<rparr>))))"
  | (updated) i body where "snd tx = UpdateDocument i body" "owner (documents s i) \<noteq> 0"
      "editors s i (msg_sender (fst tx))"
      "execute tx s = s\<lparr>documents := (documents s)(i := (documents s i)\<lparr>encryptedBody := body,
            lastEditor := msg_sender (fst tx), updatedAt := block_timestamp (fst tx)\<rparr>),
          logs := logs s @ [DocumentUpdated i (msg_sender (fst tx)) body]\<rparr>"
  | (allowed) i a where "snd tx = AllowEditor i a" "owner (documents s i) \<noteq> 0" "a \<noteq> 0"
      "owner (documents s i) = msg_sender (fst tx)"
      "execute tx s = emit (EditorAllowed i a)
         (FHE_allow (encryptedAccessKey (documents s i)) a (grantEditor i a s))"
proof (cases "dispatch (fst tx) (snd tx) s")
  case (Inl err)
  then have "execute tx s = s" by (simp add: execute_def)
  then show ?thesis by (rule reverted)
next
  case (Inr rs)
  then obtain r s' where rs: "dispatch (fst tx) (snd tx) s = Inr (r, s')" by (cases rs) auto
  then have s': "execute tx s = s'" by (simp add: execute_def)
  show ?thesis
  proof (cases "snd tx")
    case (CreateDocument nm h p)
    then obtain j where c: "createDocument (fst tx) nm h p s = Inr (j, s')"
      using rs by (auto split: sum.splits)
    from createDocument_Inr[OF c] show ?thesis
      using created[OF CreateDocument] unfolding s' by blast
  next
    case (UpdateDocument i body)
    then have "updateDocument (fst tx) i body s = Inr s'" using rs by (auto split: sum.splits)
    from updateDocument_Inr[OF this] show ?thesis
      using updated[OF UpdateDocument] unfolding s' by blast
  next
    case (AllowEditor i a)
    then have "allowEditor (fst tx) i a s = Inr s'" using rs by (auto split: sum.splits)
    from allowEditor_Inr[OF this] show ?thesis
      using allowed[OF AllowEditor] unfolding s' by blast
  qed
qed

lemma allocated_execute:
  assumes "allocated s"
  shows "allocated (execute tx s)"
proof (cases tx s rule: execute_cases)
  case reverted
  then show ?thesis using assms by simp
next
  case (created nm h p k)
  have "owner (documents s (nextDocumentId s)) = 0"
    using assms unfolding allocated_def by (metis less_irrefl)
  then show ?thesis
    using assms word_less_succ[OF created(3)] unfolding allocated_def created(4)
    by (auto simp: fields)
next
  case (updated i body)
  then show ?thesis using assms unfolding allocated_def by auto
next
  case (allowed i a)
  have "editors s i (msg_sender (fst tx))"
    using assms allowed(2,4) unfolding allocated_def by metis
  then show ?thesis using assms unfolding allocated_def allowed(5) by (auto simp: fields)
qed

lemma editorIndexed_grantEditor:
  assumes "editorIndexed s"
  shows "editorIndexed (grantEditor i a s)"
  using assms unfolding editorIndexed_def by (auto simp: fields)

lemma editorIndexed_frame:
  assumes "editorIndexed s" "editors s' = editors s" "documentsByEditor s' = documentsByEditor s"
  shows "editorIndexed s'"
  using assms unfolding editorIndexed_def by simp

lemma editorIndexed_emit: "editorIndexed (emit ev s) = editorIndexed s"
  by (simp add: editorIndexed_def fields)

lemma editorIndexed_FHE_allow: "editorIndexed (FHE_allow k a s) = editorIndexed s"
  by (simp add: editorIndexed_def fields)

lemma editorIndexed_execute:
  assumes "editorIndexed s"
  shows "editorIndexed (execute tx s)"
proof (cases tx s rule: execute_cases)
  case reverted
  then show ?thesis using assms by simp
next
  case (created nm h p k)
  let ?s3 = "s\<lparr>nextDocumentId := nextDocumentId s + 1,
                documents := (documents s)(nextDocumentId s := \<lparr>name = nm, encryptedBody = [],
                  encryptedAccessKey = k, owner = msg_sender (fst tx),
                  lastEditor = msg_sender (fst tx),
                  createdAt = block_timestamp (fst tx),
                  updatedAt = block_timestamp (fst tx)\<rparr>),
                documentsByOwner := (documentsByOwner s)(msg_sender (fst tx) :=
                  documentsByOwner s (msg_sender (fst tx)) @ [nextDocumentId s])\<rparr>"
  have "editorIndexed ?s3" by (rule editorIndexed_frame[OF assms]) simp_all
  then have "editorIndexed (grantEditor (nextDocumentId s) (msg_sender (fst tx)) ?s3)"
    by (rule editorIndexed_grantEditor)
  then show ?thesis unfolding created(4) by (simp only: editorIndexed_emit editorIndexed_FHE_allow)
next
  case (updated i body)
  show ?thesis unfolding updated(4) by (rule editorIndexed_frame[OF assms]) simp_all
next
  case (allowed i a)
  have "editorIndexed (grantEditor i a s)" using assms by (rule editorIndexed_grantEditor)
  then show ?thesis unfolding allowed(5) by (simp only: editorIndexed_emit editorIndexed_FHE_allow)
qed

lemma reachable_invariants:
  assumes "reachable s"
  shows "allocated s" and "editorIndexed s"
proof -
  have "allocated (run txs s0) \<and> editorIndexed (run txs s0)"
    if "allocated s0" "editorIndexed s0" for txs s0
    using that
    by (induction txs arbitrary: s0) (simp_all add: allocated_execute editorIndexed_execute)
  moreover have "allocated init" "editorIndexed init"
    by (simp_all add: allocated_def editorIndexed_def init_def zeroDocument_def)
  ultimately show "allocated s" and "editorIndexed s"
    using assms unfolding reachable_def by blast+
qed

lemma isEditor_True: "isEditor i a s = Inr True \<longleftrightarrow> owner (documents s i) \<noteq> 0 \<and> editors s i a"
  by (auto simp: isEditor_def onlyExisting_def)

lemma isEditor_execute:
  assumes "allocated s" "isEditor i a s = Inr True"
  shows "isEditor i a (execute tx s) = Inr True"
proof -
  from assms(2) have ex: "owner (documents s i) \<noteq> 0" and ed: "editors s i a"
    by (simp_all add: isEditor_True)
  show ?thesis
  proof (cases tx s rule: execute_cases)
    case reverted
    then show ?thesis using assms(2) by simp
  next
    case (created nm h p k)
    have "i < nextDocumentId s" using assms(1) ex unfolding allocated_def by blast
    then have "i \<noteq> nextDocumentId s" by auto
    then show ?thesis using ex ed unfolding created(4) isEditor_True by (simp add: fields)
  next
    case (updated j body)
    then show ?thesis using ex ed unfolding isEditor_True by auto
  next
    case (allowed j b)
    then show ?thesis using ex ed unfolding isEditor_True by (auto simp: fields)
  qed
qed

lemma isEditor_run:
  "allocated s \<Longrightarrow> isEditor i a s = Inr True \<Longrightarrow> isEditor i a (run txs s) = Inr True"
  by (induction txs arbitrary: s) (simp_all add: allocated_execute isEditor_execute)

lemmas ops = createDocument_def updateDocument_def allowEditor_def onlyExisting_def grantEditor_def
  FHE_allow_def emit_def execute_def init_def zeroDocument_def Let_def exampleEnv_def
  alice_def bob_def carol_def

lemma run1: "run exampleTxs init =
  \<lparr>nextDocumentId = 2,
    documents = (\<lambda>_. zeroDocument)(1 := \<lparr>name = ''First Doc'', encryptedBody = [],
       encryptedAccessKey = 7, owner = alice, lastEditor = alice, createdAt = 1000, updatedAt = 1000\<rparr>),
    documentsByOwner = (\<lambda>_. [])(alice := [1]),
    documentsByEditor = (\<lambda>_. [])(alice := [1]),
    editors = (\<lambda>_ _. False)(1 := (\<lambda>_. False)(alice := True)),
    aclAllowed = (\<lambda>_ _. False)(7 := (\<lambda>_. False)(alice := True, 0xC0FFEE := True)),
    logs = [DocumentCreated 1 alice ''First Doc'']\<rparr>"
  by (simp add: exampleTxs_def ops)

lemma reach1: "reachable (run exampleTxs init)"
  unfolding reachable_def by blast

lemma valid1: "validTxs exampleTxs"
  by (simp add: validTxs_def exampleTxs_def exampleEnv_def alice_def)


subsection \<open>Authorization\<close>

text \<open>
  C1. Authorization is monotone. In every state reachable from the deployed contract by
  any sequence of transactions, the owner of every existing document is an editor of it,
  and an \<open>isEditor\<close> query that returns true returns true after any further
  transactions: no operation removes an editor.
\<close>

theorem authorization_monotone:
  assumes "reachable s"
  shows "(\<forall>i. owner (documents s i) \<noteq> 0 \<longrightarrow> isEditor i (owner (documents s i)) s = Inr True) \<and>
         (\<forall>txs i a. isEditor i a s = Inr True \<longrightarrow> isEditor i a (run txs s) = Inr True)"
proof -
  have al: "allocated s" using assms by (rule reachable_invariants)
  have "\<forall>i. owner (documents s i) \<noteq> 0 \<longrightarrow> isEditor i (owner (documents s i)) s = Inr True"
    using al unfolding allocated_def isEditor_True by blast
  moreover have "\<forall>txs i a. isEditor i a s = Inr True \<longrightarrow> isEditor i a (run txs s) = Inr True"
    using isEditor_run[OF al] by blast
  ultimately show ?thesis by blast
qed

text \<open>
  After Alice's creation of document 1 she is its editor, and still is after she shared
  it with Bob and Bob updated it.
\<close>

theorem authorization_monotone_witness:
  "reachable (run exampleTxs init) \<and>
   owner (documents (run exampleTxs init) 1) = alice \<and> alice \<noteq> 0 \<and>
   isEditor 1 alice (run exampleTxs init) = Inr True \<and>
   isEditor 1 alice (run shareTxs (run exampleTxs init)) = Inr True"
proof -
  have r: "reachable (run exampleTxs init)" by (rule reach1)
  have o: "owner (documents (run exampleTxs init) 1) = alice" by (simp add: run1)
  have a: "alice \<noteq> 0" by (simp add: alice_def)
  from authorization_monotone[OF r] o a show ?thesis
    using r by metis
qed

subsection \<open>The operations\<close>

lemma getDocument_Inr: "getDocument i s = Inr d \<longleftrightarrow> owner (documents s i) \<noteq> 0 \<and> d = documents s i"
  by (auto simp: getDocument_def onlyExisting_def)

text \<open>
  C3. A successful \<open>createDocument\<close> of a caller (never the zero address) returns an id
  under which \<open>getDocument\<close> gives the name passed in, an empty \<open>encryptedBody\<close>,
  the caller as \<open>owner\<close> and \<open>lastEditor\<close>, and the block's timestamp as
  \<open>createdAt\<close> and \<open>updatedAt\<close>; a successful call has a non-empty name. The call
  does succeed, with the counter as id, when the name is non-empty, the counter is below
  its maximum and the coprocessor accepts the sealed key. With an empty name it reverts
  with \<open>Name required\<close>, an \<open>InvalidArgument\<close>, and the transaction leaves the
  state as it was: no document is created.
\<close>

theorem createDocument_result:
  "(msg_sender e \<noteq> 0 \<and> createDocument e nm h p s = Inr (i, s') \<longrightarrow>
      nm \<noteq> [] \<and>
      (\<exists>d. getDocument i s' = Inr d \<and> name d = nm \<and> encryptedBody d = [] \<and>
         owner d = msg_sender e \<and> lastEditor d = msg_sender e \<and>
         createdAt d = block_timestamp e \<and> updatedAt d = block_timestamp e)) \<and>
   (nm \<noteq> [] \<and> nextDocumentId s \<noteq> - 1 \<and> fromExternal e h p (msg_sender e) = Some k \<longrightarrow>
      (\<exists>s'. createDocument e nm h p s = Inr (nextDocumentId s, s'))) \<and>
   createDocument e [] h p s = Inl (Revert ''Name required'') \<and>
   kindOf (Revert ''Name required'') = InvalidArgument \<and>
   execute (e, CreateDocument [] h p) s = s"
proof -
  have a: "nm \<noteq> [] \<and>
      (\<exists>d. getDocument i s' = Inr d \<and> name d = nm \<and> encryptedBody d = [] \<and>
         owner d = msg_sender e \<and> lastEditor d = msg_sender e \<and>
         createdAt d = block_timestamp e \<and> updatedAt d = block_timestamp e)"
    if c: "createDocument e nm h p s = Inr (i, s')" and z: "msg_sender e \<noteq> 0"
  proof -
    from createDocument_Inr[OF c] obtain k where "nm \<noteq> []" and
      "s' = emit (DocumentCreated i (msg_sender e) nm)
            (FHE_allow k (address_this e) (FHE_allow k (msg_sender e)
              (grantEditor i (msg_sender e)
                (s\<lparr>nextDocumentId := nextDocumentId s + 1,
                   documents := (documents s)(i := \<lparr>name = nm, encryptedBody = [],
                     encryptedAccessKey = k, owner = msg_sender e, lastEditor = msg_sender e,
                     createdAt = block_timestamp e, updatedAt = block_timestamp e\<rparr>),
                   documentsByOwner := (documentsByOwner s)(msg_sender e :=
                     documentsByOwner s (msg_sender e) @ [i])\<rparr>))))"
      by blast
    then show ?thesis using z by (simp add: getDocument_Inr fields)
  qed
  have b: "\<exists>s'. createDocument e nm h p s = Inr (nextDocumentId s, s')"
    if "nm \<noteq> []" "nextDocumentId s \<noteq> - 1" "fromExternal e h p (msg_sender e) = Some k"
    using that by (simp add: createDocument_def Let_def)
  have c: "createDocument e [] h p s = Inl (Revert ''Name required'')"
    by (simp add: createDocument_def)
  have d: "kindOf (Revert ''Name required'') = InvalidArgument"
    by (simp add: kindOf_def)
  have e: "execute (e, CreateDocument [] h p) s = s"
    by (simp add: execute_def c)
  from a b c d e show ?thesis by blast
qed

text \<open>Alice's creation of ``First Doc'' in the deployed contract.\<close>

theorem createDocument_result_witness:
  "msg_sender (exampleEnv alice 1000) \<noteq> 0 \<and>
   createDocument (exampleEnv alice 1000) ''First Doc'' 7 [] init = Inr (1, run exampleTxs init) \<and>
   (\<exists>d. getDocument 1 (run exampleTxs init) = Inr d \<and> name d = ''First Doc'' \<and>
      encryptedBody d = [] \<and> owner d = alice \<and> lastEditor d = alice \<and>
      createdAt d = 1000 \<and> updatedAt d = 1000) \<and>
   ''First Doc'' \<noteq> [] \<and> nextDocumentId init \<noteq> - 1 \<and>
   fromExternal (exampleEnv alice 1000) 7 [] (msg_sender (exampleEnv alice 1000)) = Some 7 \<and>
   (\<exists>s'. createDocument (exampleEnv alice 1000) ''First Doc'' 7 [] init = Inr (nextDocumentId init, s'))"
proof -
  let ?e = "exampleEnv alice 1000"
  have c: "createDocument ?e ''First Doc'' 7 [] init = Inr (1, run exampleTxs init)"
    unfolding run1 by (simp add: ops)
  have z: "msg_sender ?e \<noteq> 0" by (simp add: exampleEnv_def alice_def)
  have n: "nextDocumentId init \<noteq> - 1" by (simp add: init_def)
  have f: "fromExternal ?e 7 [] (msg_sender ?e) = Some 7"
    by (simp add: exampleEnv_def)
  have m: "msg_sender ?e = alice" "block_timestamp ?e = 1000" by (simp_all add: exampleEnv_def)
  have nm: "''First Doc'' \<noteq> []" by simp
  note t = createDocument_result[of ?e "''First Doc''" 7 "[]" init 1 "run exampleTxs init" 7]
  from t c z have g: "\<exists>d. getDocument 1 (run exampleTxs init) = Inr d \<and> name d = ''First Doc'' \<and>
      encryptedBody d = [] \<and> owner d = alice \<and> lastEditor d = alice \<and>
      createdAt d = 1000 \<and> updatedAt d = 1000"
    unfolding m by blast
  from t nm n f have h: "\<exists>s'. createDocument ?e ''First Doc'' 7 [] init = Inr (nextDocumentId init, s')"
    by blast
  from c z n f g h nm show ?thesis by blast
qed

text \<open>
  C2. \<open>updateDocument\<close> reverts with \<open>Document does not exist\<close> (\<open>NotFound\<close>)
  when the document does not exist and, for an existing document, with
  \<open>Not authorized\<close> (\<open>NotAuthorized\<close>) when the caller is not one of its editors.
  A reverted transaction leaves the whole state, so \<open>encryptedBody\<close> and
  \<open>updatedAt\<close>, unchanged. For an editor of an existing document the call succeeds:
  the body is replaced by the new one as it is, \<open>lastEditor\<close> is the caller,
  \<open>updatedAt\<close> the block's timestamp, every other field and document is kept.
\<close>

theorem updateDocument_result:
  "(owner (documents s i) = 0 \<longrightarrow>
      updateDocument e i body s = Inl (Revert ''Document does not exist'')) \<and>
   kindOf (Revert ''Document does not exist'') = NotFound \<and>
   (owner (documents s i) \<noteq> 0 \<and> \<not> editors s i (msg_sender e) \<longrightarrow>
      updateDocument e i body s = Inl (Revert ''Not authorized'')) \<and>
   kindOf (Revert ''Not authorized'') = NotAuthorized \<and>
   (\<forall>err. updateDocument e i body s = Inl err \<longrightarrow>
      execute (e, UpdateDocument i body) s = s) \<and>
   (owner (documents s i) \<noteq> 0 \<and> editors s i (msg_sender e) \<longrightarrow>
      (\<exists>s'. updateDocument e i body s = Inr s' \<and> execute (e, UpdateDocument i body) s = s' \<and>
         getDocument i s' = Inr ((documents s i)\<lparr>encryptedBody := body,
           lastEditor := msg_sender e, updatedAt := block_timestamp e\<rparr>) \<and>
         (\<forall>j. j \<noteq> i \<longrightarrow> documents s' j = documents s j)))"
  by (auto simp: updateDocument_def onlyExisting_def kindOf_def execute_def emit_def Let_def
      getDocument_Inr)


lemma owner1: "owner (documents (run exampleTxs init) 1) = alice"
  by (simp add: run1)

lemma owner5: "owner (documents (run exampleTxs init) 5) = 0"
  by (simp add: run1 zeroDocument_def)

lemma editors1: "editors (run exampleTxs init) 1 a \<longleftrightarrow> a = alice"
  by (simp add: run1)

lemma sender_example: "msg_sender (exampleEnv a t) = a" "block_timestamp (exampleEnv a t) = t"
  by (simp_all add: exampleEnv_def)

lemma accounts_distinct: "alice \<noteq> 0" "bob \<noteq> 0" "carol \<noteq> 0" "alice \<noteq> bob" "bob \<noteq> alice"
  "alice \<noteq> carol" "bob \<noteq> carol"
  by (simp_all add: alice_def bob_def carol_def)

text \<open>
  After Alice's creation: an update of the unknown document 5, Bob's update of Alice's
  document, and Alice's own update.
\<close>

theorem updateDocument_result_witness:
  "owner (documents (run exampleTxs init) 5) = 0 \<and>
   updateDocument (exampleEnv bob 2000) 5 ''nope'' (run exampleTxs init) =
     Inl (Revert ''Document does not exist'') \<and>
   owner (documents (run exampleTxs init) 1) \<noteq> 0 \<and>
   \<not> editors (run exampleTxs init) 1 (msg_sender (exampleEnv bob 2000)) \<and>
   updateDocument (exampleEnv bob 2000) 1 ''nope'' (run exampleTxs init) =
     Inl (Revert ''Not authorized'') \<and>
   execute (exampleEnv bob 2000, UpdateDocument 1 ''nope'') (run exampleTxs init) =
     run exampleTxs init \<and>
   editors (run exampleTxs init) 1 (msg_sender (exampleEnv alice 2000)) \<and>
   (\<exists>s'. updateDocument (exampleEnv alice 2000) 1 ''ciphertext'' (run exampleTxs init) = Inr s' \<and>
      getDocument 1 s' = Inr \<lparr>name = ''First Doc'', encryptedBody = ''ciphertext'',
        encryptedAccessKey = 7, owner = alice, lastEditor = alice, createdAt = 1000,
        updatedAt = 2000\<rparr>)"
proof -
  let ?s = "run exampleTxs init"
  have a: "owner (documents ?s 5) = 0" by (rule owner5)
  have b: "owner (documents ?s 1) \<noteq> 0" by (simp add: owner1 accounts_distinct)
  have c: "\<not> editors ?s 1 (msg_sender (exampleEnv bob 2000))"
    by (simp add: editors1 sender_example accounts_distinct)
  have d: "editors ?s 1 (msg_sender (exampleEnv alice 2000))"
    by (simp add: editors1 sender_example)
  have doc: "(documents ?s 1)\<lparr>encryptedBody := ''ciphertext'',
        lastEditor := msg_sender (exampleEnv alice 2000),
        updatedAt := block_timestamp (exampleEnv alice 2000)\<rparr> =
      \<lparr>name = ''First Doc'', encryptedBody = ''ciphertext'',
        encryptedAccessKey = 7, owner = alice, lastEditor = alice, createdAt = 1000,
        updatedAt = 2000\<rparr>"
    by (simp add: run1 sender_example)
  note t1 = updateDocument_result[of ?s 5 "exampleEnv bob 2000" "''nope''"]
  note t2 = updateDocument_result[of ?s 1 "exampleEnv bob 2000" "''nope''"]
  note t3 = updateDocument_result[of ?s 1 "exampleEnv alice 2000" "''ciphertext''"]
  from t1 a have r1: "updateDocument (exampleEnv bob 2000) 5 ''nope'' ?s =
     Inl (Revert ''Document does not exist'')" by blast
  from t2 b c have r2: "updateDocument (exampleEnv bob 2000) 1 ''nope'' ?s =
     Inl (Revert ''Not authorized'')" by blast
  from t2 r2 have r3: "execute (exampleEnv bob 2000, UpdateDocument 1 ''nope'') ?s = ?s" by blast
  from t3 b d have r4: "\<exists>s'. updateDocument (exampleEnv alice 2000) 1 ''ciphertext'' ?s = Inr s' \<and>
      getDocument 1 s' = Inr \<lparr>name = ''First Doc'', encryptedBody = ''ciphertext'',
        encryptedAccessKey = 7, owner = alice, lastEditor = alice, createdAt = 1000,
        updatedAt = 2000\<rparr>"
    unfolding doc by blast
  from a b c d r1 r2 r3 r4 show ?thesis by blast
qed

text \<open>
  C5, as stated, fails: the claim has a non-owner's \<open>allowEditor\<close> fail with
  \<open>NotAuthorized\<close>, but the contract checks the editor's address before the owner.
  Bob, who does not own document 1, passes the zero address and the call reverts with
  \<open>Invalid editor\<close>, an \<open>InvalidArgument\<close>.
\<close>

theorem allowEditor_invalid_editor_first:
  "owner (documents (run exampleTxs init) 1) = alice \<and>
   msg_sender (exampleEnv bob 2000) \<noteq> alice \<and>
   allowEditor (exampleEnv bob 2000) 1 0 (run exampleTxs init) = Inl (Revert ''Invalid editor'') \<and>
   kindOf (Revert ''Invalid editor'') \<noteq> NotAuthorized"
  by (simp add: run1 allowEditor_def onlyExisting_def kindOf_def sender_example accounts_distinct)

text \<open>
  C5, amended. \<open>allowEditor\<close> reverts with \<open>Document does not exist\<close>
  (\<open>NotFound\<close>) when the document does not exist; for an existing document with
  \<open>Invalid editor\<close> (\<open>InvalidArgument\<close>) when the editor is the zero address,
  whoever calls; and for an existing document and a non-zero editor with
  \<open>Only owner can allow\<close> (\<open>NotAuthorized\<close>) when the caller is not the owner.
  A reverted transaction leaves the state, and so the editor sets, unchanged.
\<close>

theorem allowEditor_failures:
  "(owner (documents s i) = 0 \<longrightarrow>
      allowEditor e i a s = Inl (Revert ''Document does not exist'')) \<and>
   kindOf (Revert ''Document does not exist'') = NotFound \<and>
   (owner (documents s i) \<noteq> 0 \<and> a = 0 \<longrightarrow>
      allowEditor e i a s = Inl (Revert ''Invalid editor'')) \<and>
   kindOf (Revert ''Invalid editor'') = InvalidArgument \<and>
   (owner (documents s i) \<noteq> 0 \<and> a \<noteq> 0 \<and> owner (documents s i) \<noteq> msg_sender e \<longrightarrow>
      allowEditor e i a s = Inl (Revert ''Only owner can allow'')) \<and>
   kindOf (Revert ''Only owner can allow'') = NotAuthorized \<and>
   (\<forall>err. allowEditor e i a s = Inl err \<longrightarrow>
      execute (e, AllowEditor i a) s = s \<and> editors (execute (e, AllowEditor i a) s) = editors s)"
  by (auto simp: allowEditor_def onlyExisting_def kindOf_def execute_def)

text \<open>The three failures after Alice's creation of document 1.\<close>

theorem allowEditor_failures_witness:
  "owner (documents (run exampleTxs init) 5) = 0 \<and>
   allowEditor (exampleEnv alice 2000) 5 bob (run exampleTxs init) =
     Inl (Revert ''Document does not exist'') \<and>
   owner (documents (run exampleTxs init) 1) \<noteq> 0 \<and>
   allowEditor (exampleEnv alice 2000) 1 0 (run exampleTxs init) = Inl (Revert ''Invalid editor'') \<and>
   bob \<noteq> 0 \<and> owner (documents (run exampleTxs init) 1) \<noteq> msg_sender (exampleEnv bob 2000) \<and>
   allowEditor (exampleEnv bob 2000) 1 bob (run exampleTxs init) =
     Inl (Revert ''Only owner can allow'') \<and>
   editors (execute (exampleEnv bob 2000, AllowEditor 1 bob) (run exampleTxs init)) =
     editors (run exampleTxs init)"
proof -
  let ?s = "run exampleTxs init"
  have a: "owner (documents ?s 5) = 0" by (rule owner5)
  have b: "owner (documents ?s 1) \<noteq> 0" by (simp add: owner1 accounts_distinct)
  have c: "owner (documents ?s 1) \<noteq> msg_sender (exampleEnv bob 2000)"
    by (simp add: owner1 sender_example accounts_distinct)
  have d: "bob \<noteq> 0" by (rule accounts_distinct)
  note t1 = allowEditor_failures[of ?s 5 "exampleEnv alice 2000" bob]
  note t2 = allowEditor_failures[of ?s 1 "exampleEnv alice 2000" 0]
  note t3 = allowEditor_failures[of ?s 1 "exampleEnv bob 2000" bob]
  from t1 a have r1: "allowEditor (exampleEnv alice 2000) 5 bob ?s =
     Inl (Revert ''Document does not exist'')" by blast
  from t2 b have r2: "allowEditor (exampleEnv alice 2000) 1 0 ?s = Inl (Revert ''Invalid editor'')"
    by blast
  from t3 b c d have r3: "allowEditor (exampleEnv bob 2000) 1 bob ?s =
     Inl (Revert ''Only owner can allow'')" by blast
  from t3 r3 have r4: "editors (execute (exampleEnv bob 2000, AllowEditor 1 bob) ?s) = editors ?s"
    by blast
  from a b c d r1 r2 r3 r4 show ?thesis by blast
qed

subsection \<open>Granting twice\<close>

lemma count_list_distinct: "distinct xs \<Longrightarrow> x \<in> set xs \<Longrightarrow> count_list xs x = 1"
  by (induction xs) auto

lemma grantEditor_idem: "editors s i a \<Longrightarrow> grantEditor i a s = s"
  by (simp add: grantEditor_def)

lemma allowEditor_succeeds:
  "owner (documents s i) \<noteq> 0 \<Longrightarrow> a \<noteq> 0 \<Longrightarrow> owner (documents s i) = msg_sender e \<Longrightarrow>
   allowEditor e i a s = Inr (emit (EditorAllowed i a)
           (FHE_allow (encryptedAccessKey (documents s i)) a (grantEditor i a s)))"
  by (simp add: allowEditor_def onlyExisting_def)

text \<open>
  C4. \<open>allowEditor\<close> is idempotent. In a reachable state, when the owner of an
  existing document grants a non-zero identity twice, both calls succeed, the second
  leaves the editor sets and every editor's index as the first left them (it only emits
  its event again), the identity is an editor, and the document's id occurs exactly once
  in \<open>getDocumentsForEditor\<close> of the identity, after the first and after the second
  grant.
\<close>

theorem allowEditor_idempotent:
  assumes "reachable s" and "owner (documents s i) = ow" and "ow \<noteq> 0"
    and "msg_sender e1 = ow" and "msg_sender e2 = ow" and "a \<noteq> 0"
  shows "\<exists>s1 s2. allowEditor e1 i a s = Inr s1 \<and> allowEditor e2 i a s1 = Inr s2 \<and>
           editors s2 = editors s1 \<and>
           (\<forall>b. getDocumentsForEditor b s2 = getDocumentsForEditor b s1) \<and>
           s2 = s1\<lparr>logs := logs s1 @ [EditorAllowed i a]\<rparr> \<and>
           isEditor i a s1 = Inr True \<and>
           count_list (getDocumentsForEditor a s1) i = 1 \<and>
           count_list (getDocumentsForEditor a s2) i = 1"
proof -
  let ?k = "encryptedAccessKey (documents s i)"
  let ?s1 = "emit (EditorAllowed i a) (FHE_allow ?k a (grantEditor i a s))"
  let ?s2 = "emit (EditorAllowed i a) (FHE_allow ?k a (grantEditor i a ?s1))"
  have r1: "allowEditor e1 i a s = Inr ?s1"
    using assms by (simp add: allowEditor_succeeds)
  have d1: "documents ?s1 = documents s" by (simp add: fields)
  have r2: "allowEditor e2 i a ?s1 = Inr ?s2"
    using assms allowEditor_succeeds[of ?s1 i a e2] unfolding d1 by simp
  have ed1: "editors ?s1 i a" by (simp add: fields)
  have g: "grantEditor i a ?s1 = ?s1" using ed1 by (rule grantEditor_idem)
  have acl: "FHE_allow ?k a ?s1 = ?s1"
    by (simp add: FHE_allow_def emit_def)
  have s2: "?s2 = ?s1\<lparr>logs := logs ?s1 @ [EditorAllowed i a]\<rparr>"
    unfolding g acl by (simp add: emit_def)
  have reach1: "reachable ?s1"
  proof -
    have "run [(e1, AllowEditor i a)] s = ?s1" by (simp add: execute_def r1)
    then show ?thesis using reachable_run[OF assms(1)] by metis
  qed
  have inv1: "editorIndexed ?s1" using reach1 by (rule reachable_invariants)
  have mem: "i \<in> set (documentsByEditor ?s1 a)" and dis: "distinct (documentsByEditor ?s1 a)"
    using inv1 ed1 unfolding editorIndexed_def by blast+
  have c1: "count_list (getDocumentsForEditor a ?s1) i = 1"
    unfolding getDocumentsForEditor_def using dis mem by (rule count_list_distinct)
  have same: "getDocumentsForEditor b ?s2 = getDocumentsForEditor b ?s1" for b
    by (subst s2) (simp add: getDocumentsForEditor_def)
  have ise: "isEditor i a ?s1 = Inr True"
    unfolding isEditor_True d1 using ed1 assms by simp
  have eds: "editors ?s2 = editors ?s1" by (subst s2) simp
  have c2: "count_list (getDocumentsForEditor a ?s2) i = 1" using c1 same by simp
  from r1 r2 eds same s2 ise c1 c2 show ?thesis by blast
qed

text \<open>Alice grants Bob twice on her document 1.\<close>

lemma step2: "execute (exampleEnv alice 2000, AllowEditor 1 bob) (run exampleTxs init) =
  \<lparr>nextDocumentId = 2,
    documents = (\<lambda>_. zeroDocument)(1 := \<lparr>name = ''First Doc'', encryptedBody = [],
       encryptedAccessKey = 7, owner = alice, lastEditor = alice, createdAt = 1000, updatedAt = 1000\<rparr>),
    documentsByOwner = (\<lambda>_. [])(alice := [1]),
    documentsByEditor = (\<lambda>_. [])(alice := [1], bob := [1]),
    editors = (\<lambda>_ _. False)(1 := (\<lambda>_. False)(alice := True, bob := True)),
    aclAllowed = (\<lambda>_ _. False)(7 := (\<lambda>_. False)(alice := True, 0xC0FFEE := True, bob := True)),
    logs = [DocumentCreated 1 alice ''First Doc'', EditorAllowed 1 bob]\<rparr>"
  unfolding run1
  apply (simp add: allowEditor_def onlyExisting_def execute_def Let_def exampleEnv_def)
  apply (simp add: grantEditor_def FHE_allow_def emit_def accounts_distinct)
  done

theorem allowEditor_idempotent_witness:
  "reachable (run exampleTxs init) \<and> owner (documents (run exampleTxs init) 1) = alice \<and>
   alice \<noteq> 0 \<and> msg_sender (exampleEnv alice 2000) = alice \<and>
   msg_sender (exampleEnv alice 2500) = alice \<and> bob \<noteq> 0 \<and>
   (\<exists>s1 s2. allowEditor (exampleEnv alice 2000) 1 bob (run exampleTxs init) = Inr s1 \<and>
      allowEditor (exampleEnv alice 2500) 1 bob s1 = Inr s2 \<and>
      editors s2 = editors s1 \<and>
      getDocumentsForEditor bob s1 = [1] \<and> getDocumentsForEditor bob s2 = [1] \<and>
      count_list (getDocumentsForEditor bob s2) 1 = 1)"
proof -
  let ?s = "run exampleTxs init"
  note t = allowEditor_idempotent[OF reach1 owner1 accounts_distinct(1)
      sender_example(1)[of alice 2000] sender_example(1)[of alice 2500] accounts_distinct(2)]
  then obtain s1 s2 where
    r: "allowEditor (exampleEnv alice 2000) 1 bob ?s = Inr s1"
      "allowEditor (exampleEnv alice 2500) 1 bob s1 = Inr s2"
      "editors s2 = editors s1"
      "\<forall>b. getDocumentsForEditor b s2 = getDocumentsForEditor b s1"
      "count_list (getDocumentsForEditor bob s2) 1 = 1"
    by blast
  from r(1) have "execute (exampleEnv alice 2000, AllowEditor 1 bob) ?s = s1"
    by (simp add: execute_def)
  then have "getDocumentsForEditor bob s1 = [1]"
    unfolding step2 by (auto simp: getDocumentsForEditor_def)
  with r show ?thesis
    using reach1 owner1 accounts_distinct(1,2) sender_example(1) by metis
qed

subsection \<open>Document ids\<close>

lemma dispatch_counter:
  assumes "dispatch e c s = Inr (r, s')"
  shows "case r of
           Some i \<Rightarrow> i = nextDocumentId s \<and> nextDocumentId s \<noteq> - 1 \<and>
             nextDocumentId s' = nextDocumentId s + 1
         | None \<Rightarrow> nextDocumentId s' = nextDocumentId s"
proof (cases c)
  case (CreateDocument nm h p)
  then obtain j where r: "r = Some j" and c: "createDocument e nm h p s = Inr (j, s')"
    using assms by (auto split: sum.splits)
  from createDocument_Inr[OF c] show ?thesis unfolding r by (auto simp: fields)
next
  case (UpdateDocument j body)
  then have r: "r = None" and u: "updateDocument e j body s = Inr s'"
    using assms by (auto split: sum.splits)
  from updateDocument_Inr(3)[OF u] show ?thesis unfolding r by simp
next
  case (AllowEditor j b)
  then have r: "r = None" and u: "allowEditor e j b s = Inr s'"
    using assms by (auto split: sum.splits)
  from allowEditor_Inr(4)[OF u] show ?thesis unfolding r by (simp add: fields)
qed

lemma returnedIds_from:
  "map unat (returnedIds txs s) =
     [unat (nextDocumentId s) ..< unat (nextDocumentId s) + length (returnedIds txs s)]"
proof (induction txs arbitrary: s)
  case Nil
  then show ?case by simp
next
  case (Cons tx txs)
  show ?case
  proof (cases "dispatch (fst tx) (snd tx) s")
    case (Inl err)
    then show ?thesis using Cons.IH[of s] by simp
  next
    case (Inr rs)
    then obtain r s' where rs: "dispatch (fst tx) (snd tx) s = Inr (r, s')" by (cases rs) auto
    show ?thesis
    proof (cases r)
      case None
      with dispatch_counter[OF rs] have "nextDocumentId s' = nextDocumentId s" by simp
      then show ?thesis using Cons.IH[of s'] rs None by simp
    next
      case (Some i)
      with dispatch_counter[OF rs] have i: "i = nextDocumentId s" and
        n: "nextDocumentId s \<noteq> - 1" and n': "nextDocumentId s' = nextDocumentId s + 1"
        by simp_all
      have u: "unat (nextDocumentId s') = Suc (unat (nextDocumentId s))"
        unfolding n' using n by (rule unat_succ)
      show ?thesis using Cons.IH[of s'] rs Some i u by (simp add: upt_rec)
    qed
  qed
qed

text \<open>
  C8. Document ids are allocated monotonically. For any sequence of transactions on the
  deployed contract, the ids returned by its successful \<open>createDocument\<close> calls are
  \<open>1, 2, 3, \<dots>\<close> in this order: the first is 1, each is greater than all returned
  before it, and none is returned twice.
\<close>

theorem document_ids_monotone:
  "map unat (returnedIds txs init) = [1 ..< Suc (length (returnedIds txs init))] \<and>
   (returnedIds txs init = [] \<or> hd (returnedIds txs init) = 1) \<and>
   sorted_wrt (<) (returnedIds txs init) \<and>
   distinct (returnedIds txs init)"
proof -
  let ?ids = "returnedIds txs init"
  have m: "map unat ?ids = [1 ..< Suc (length ?ids)]"
    using returnedIds_from[of txs init] by (simp add: init_def)
  have h: "?ids = [] \<or> hd ?ids = 1"
  proof (cases ?ids)
    case Nil
    then show ?thesis by simp
  next
    case (Cons x xs)
    with m have "unat x = 1" by (simp add: upt_rec)
    then have "x = 1" by (metis unat_1 unat_eq_nat_uint word_unat_eq_iff)
    then show ?thesis using Cons by simp
  qed
  have "sorted_wrt (<) (map unat ?ids)" unfolding m by (rule sorted_wrt_upt)
  then have s: "sorted_wrt (<) ?ids"
    by (simp add: sorted_wrt_map word_less_nat_alt [abs_def])
  have "distinct (map unat ?ids)" unfolding m by (rule distinct_upt)
  then have d: "distinct ?ids" by (simp add: distinct_map)
  from m h s d show ?thesis by blast
qed

text \<open>
  Two creations with a rejected one (empty name) and a grant between them return the ids
  1 and 2.
\<close>

theorem document_ids_monotone_witness:
  "returnedIds createTxs init = [1, 2] \<and>
   map unat (returnedIds createTxs init) = [1 ..< Suc (length (returnedIds createTxs init))] \<and>
   hd (returnedIds createTxs init) = 1 \<and>
   sorted_wrt (<) (returnedIds createTxs init) \<and> distinct (returnedIds createTxs init)"
proof -
  have e: "returnedIds createTxs init = [1, 2]"
    unfolding createTxs_def
    apply (simp add: createDocument_def allowEditor_def onlyExisting_def Let_def exampleEnv_def init_def)
    apply (simp add: grantEditor_def FHE_allow_def emit_def accounts_distinct zeroDocument_def)
    done
  from document_ids_monotone[of createTxs] e show ?thesis by simp
qed

subsection \<open>The indices\<close>

lemma invariantD:
  assumes "invariant s"
  shows "owner (documents s i) \<noteq> 0 \<Longrightarrow> i < nextDocumentId s"
    and "owner (documents s i) \<noteq> 0 \<Longrightarrow> editors s i (owner (documents s i))"
    and "i \<in> set (documentsByOwner s a) \<longleftrightarrow> owner (documents s i) = a \<and> a \<noteq> 0"
    and "i \<in> set (documentsByEditor s a) \<longleftrightarrow> editors s i a"
    and "editors s i a \<Longrightarrow> owner (documents s i) \<noteq> 0"
    and "distinct (documentsByOwner s a)"
    and "distinct (documentsByEditor s a)"
  using assms unfolding invariant_def by blast+

lemma indices_execute:
  "prefix (documentsByOwner s a) (documentsByOwner (execute tx s) a) \<and>
   prefix (documentsByEditor s a) (documentsByEditor (execute tx s) a)"
proof (cases "dispatch (fst tx) (snd tx) s")
  case (Inl err)
  then show ?thesis by (simp add: execute_def)
next
  case (Inr rs)
  then obtain r s' where rs: "dispatch (fst tx) (snd tx) s = Inr (r, s')" by (cases rs) auto
  then have s': "execute tx s = s'" by (simp add: execute_def)
  show ?thesis
  proof (cases "snd tx")
    case (CreateDocument nm h p)
    then obtain j where c: "createDocument (fst tx) nm h p s = Inr (j, s')"
      using rs by (auto split: sum.splits)
    from createDocument_Inr(4)[OF c] obtain k where
      eq: "s' = emit (DocumentCreated j (msg_sender (fst tx)) nm)
            (FHE_allow k (address_this (fst tx)) (FHE_allow k (msg_sender (fst tx))
              (grantEditor j (msg_sender (fst tx))
                (s\<lparr>nextDocumentId := nextDocumentId s + 1,
                   documents := (documents s)(j := \<lparr>name = nm, encryptedBody = [],
                     encryptedAccessKey = k, owner = msg_sender (fst tx),
                     lastEditor = msg_sender (fst tx),
                     createdAt = block_timestamp (fst tx),
                     updatedAt = block_timestamp (fst tx)\<rparr>),
                   documentsByOwner := (documentsByOwner s)(msg_sender (fst tx) :=
                     documentsByOwner s (msg_sender (fst tx)) @ [j])\<rparr>))))"
      by blast
    show ?thesis unfolding s' eq by (simp add: fields)
  next
    case (UpdateDocument j body)
    then have "updateDocument (fst tx) j body s = Inr s'" using rs by (auto split: sum.splits)
    from updateDocument_Inr(3)[OF this] have "documentsByOwner s' = documentsByOwner s"
      "documentsByEditor s' = documentsByEditor s" by simp_all
    then show ?thesis unfolding s' by simp
  next
    case (AllowEditor j b)
    then have "allowEditor (fst tx) j b s = Inr s'" using rs by (auto split: sum.splits)
    from allowEditor_Inr(4)[OF this] show ?thesis unfolding s' by (simp add: fields)
  qed
qed

lemma indices_run:
  "prefix (documentsByOwner s a) (documentsByOwner (run txs s) a) \<and>
   prefix (documentsByEditor s a) (documentsByEditor (run txs s) a)"
proof (induction txs arbitrary: s)
  case Nil
  then show ?case by simp
next
  case (Cons tx txs)
  have "prefix (documentsByOwner s a) (documentsByOwner (run txs (execute tx s)) a)"
    using indices_execute[of s a tx] Cons.IH[of "execute tx s"] prefix_order.trans by blast
  moreover have "prefix (documentsByEditor s a) (documentsByEditor (run txs (execute tx s)) a)"
    using indices_execute[of s a tx] Cons.IH[of "execute tx s"] prefix_order.trans by blast
  ultimately show ?case by simp
qed

text \<open>
  C10. Index consistency. In every state that transactions of non-zero senders reach
  from the deployed contract, each id listed by
  \<open>getDocumentsByOwner\<close> of an account is an existing document owned by that account,
  each id listed by \<open>getDocumentsForEditor\<close> of an account has \<open>isEditor\<close> true
  for it, neither list repeats an id, and after any further transactions each list
  still starts with what it held: the lists only grow at their end.
\<close>

theorem index_consistency:
  assumes "validTxs txs0" and "s = run txs0 init"
  shows "(\<forall>a i. i \<in> set (getDocumentsByOwner a s) \<longrightarrow>
            (\<exists>d. getDocument i s = Inr d \<and> owner d = a)) \<and>
         (\<forall>a i. i \<in> set (getDocumentsForEditor a s) \<longrightarrow> isEditor i a s = Inr True) \<and>
         (\<forall>a. distinct (getDocumentsByOwner a s) \<and> distinct (getDocumentsForEditor a s)) \<and>
         (\<forall>txs a. prefix (getDocumentsByOwner a s) (getDocumentsByOwner a (run txs s)) \<and>
            prefix (getDocumentsForEditor a s) (getDocumentsForEditor a (run txs s)))"
proof -
  have "invariant s" unfolding assms(2) using assms(1) by (rule valid_invariant)
  note inv = invariantD[OF this]
  have a: "\<exists>d. getDocument i s = Inr d \<and> owner d = a"
    if "i \<in> set (getDocumentsByOwner a s)" for a i
  proof -
    from that have "owner (documents s i) = a \<and> a \<noteq> 0"
      by (simp add: getDocumentsByOwner_def inv(3))
    then have "getDocument i s = Inr (documents s i) \<and> owner (documents s i) = a"
      by (simp add: getDocument_Inr)
    then show ?thesis by blast
  qed
  have b: "isEditor i a s = Inr True" if "i \<in> set (getDocumentsForEditor a s)" for a i
  proof -
    from that have "editors s i a" by (simp add: getDocumentsForEditor_def inv(4))
    then show ?thesis using inv(5) by (simp add: isEditor_True)
  qed
  have c: "distinct (getDocumentsByOwner a s) \<and> distinct (getDocumentsForEditor a s)" for a
    by (simp add: getDocumentsByOwner_def getDocumentsForEditor_def inv(6,7))
  have d: "prefix (getDocumentsByOwner a s) (getDocumentsByOwner a (run txs s)) \<and>
            prefix (getDocumentsForEditor a s) (getDocumentsForEditor a (run txs s))" for txs a
    unfolding getDocumentsForEditor_def getDocumentsByOwner_def by (rule indices_run)
  from a b c d show ?thesis by blast
qed

text \<open>Alice's index after her creation, and after she shared the document with Bob.\<close>

theorem index_consistency_witness:
  "validTxs exampleTxs \<and>
   1 \<in> set (getDocumentsByOwner alice (run exampleTxs init)) \<and>
   (\<exists>d. getDocument 1 (run exampleTxs init) = Inr d \<and> owner d = alice) \<and>
   1 \<in> set (getDocumentsForEditor alice (run exampleTxs init)) \<and>
   isEditor 1 alice (run exampleTxs init) = Inr True \<and>
   distinct (getDocumentsByOwner alice (run exampleTxs init)) \<and>
   distinct (getDocumentsForEditor alice (run exampleTxs init)) \<and>
   prefix (getDocumentsByOwner alice (run exampleTxs init))
     (getDocumentsByOwner alice (run shareTxs (run exampleTxs init))) \<and>
   prefix (getDocumentsForEditor bob (run exampleTxs init))
     (getDocumentsForEditor bob (run shareTxs (run exampleTxs init)))"
proof -
  let ?s = "run exampleTxs init"
  have o: "1 \<in> set (getDocumentsByOwner alice ?s)"
    by (simp add: run1 getDocumentsByOwner_def)
  have e: "1 \<in> set (getDocumentsForEditor alice ?s)"
    by (simp add: run1 getDocumentsForEditor_def)
  from index_consistency[OF valid1 refl] o e valid1 show ?thesis by blast
qed

section \<open>Properties of the payload codec\<close>

subsection \<open>Auxiliary facts\<close>







lemmas hexEval = js_def hexToBytes_def parseInt16_def toUint8_def isWhiteSpace_def hexDigit_def
  hexValue_def

subsection \<open>The round trip\<close>






lemma example_fields:
  "TextEncoder_encode examplePlatform = map ucast"
  "TextDecoder_decode examplePlatform = map ucast"
  "atob examplePlatform = Some"
  "digest_SHA256 examplePlatform = id"
  "AES_GCM_seal examplePlatform = (\<lambda>key iv m. m @ exampleTag key iv)"
  "AES_GCM_open examplePlatform = (\<lambda>key iv c.
        if 16 \<le> length c \<and> drop (length c - 16) c = exampleTag key iv
        then Some (take (length c - 16) c) else None)"
  by (simp_all add: examplePlatform_def)



subsection \<open>Short blobs\<close>

lemma subtle_decrypt_Inl: "subtle_decrypt W key iv d = Inl e \<Longrightarrow> e = OperationError"
  by (simp add: subtle_decrypt_def split: if_splits option.splits)

lemma subtle_decrypt_short: "length d < 16 \<Longrightarrow> subtle_decrypt W key iv d = Inl OperationError"
  by (simp add: subtle_decrypt_def)

lemma subtle_decrypt_reject:
  "AES_GCM_open W key iv d = None \<Longrightarrow> subtle_decrypt W key iv d = Inl OperationError"
  by (simp add: subtle_decrypt_def)

lemma decryptBody_decoded:
  "atob W blob = Some bin \<Longrightarrow>
   decryptBody W blob k =
     (case subtle_decrypt W (deriveKey W k) (take 12 (map ucast bin)) (drop 12 (map ucast bin)) of
        Inl err \<Rightarrow> Inl err
      | Inr plainBuffer \<Rightarrow> Inr (TextDecoder_decode W plainBuffer))"
  by (simp add: decryptBody_def base64ToBytes_def)

text \<open>
  C7, amended. For every blob that \<open>atob\<close> decodes to fewer than 28 bytes (the 12-byte
  nonce and the 16-byte tag), so for every blob shorter than the nonce, and for every
  key, \<open>decryptBody\<close> fails with \<open>OperationError\<close>. A blob whose tag does not verify
  fails with the same \<open>OperationError\<close>, and a decoded blob never fails with any other
  error: the module has no separate error for malformed input.
\<close>

theorem decryptBody_short_blob:
  "(atob W blob = Some bin \<and> length bin < 28 \<longrightarrow> decryptBody W blob k = Inl OperationError) \<and>
   (atob W blob = Some bin \<and>
      AES_GCM_open W (deriveKey W k) (take 12 (map ucast bin)) (drop 12 (map ucast bin)) = None \<longrightarrow>
      decryptBody W blob k = Inl OperationError) \<and>
   (\<forall>e. atob W blob = Some bin \<and> decryptBody W blob k = Inl e \<longrightarrow> e = OperationError)"
proof -
  have a: "decryptBody W blob k = Inl OperationError"
    if "atob W blob = Some bin" "length bin < 28"
  proof -
    have "length (drop 12 (map (ucast :: 16 word \<Rightarrow> 8 word) bin)) < 16" using that(2) by simp
    then show ?thesis
      unfolding decryptBody_decoded[OF that(1)] by (simp add: subtle_decrypt_short)
  qed
  have b: "decryptBody W blob k = Inl OperationError"
    if "atob W blob = Some bin"
      "AES_GCM_open W (deriveKey W k) (take 12 (map ucast bin)) (drop 12 (map ucast bin)) = None"
    unfolding decryptBody_decoded[OF that(1)] by (simp add: subtle_decrypt_reject[OF that(2)])
  have c: "e = OperationError" if "atob W blob = Some bin" "decryptBody W blob k = Inl e" for e
    using that(2) unfolding decryptBody_decoded[OF that(1)]
    by (auto split: sum.splits dest: subtle_decrypt_Inl)
  from a b c show ?thesis by blast
qed

text \<open>
  C7, as stated, fails: the claim has a blob shorter than the nonce fail with an error
  of its own, distinct from that of a failed tag verification. The blob \<open>AAAA\<close>
  decodes to three zero bytes, and on no platform does \<open>decryptBody\<close> fail on it with
  an error other than \<open>OperationError\<close>, the error of a failed verification.
\<close>

theorem no_malformed_input_error:
  "\<not> (\<exists>W e. atob W (js ''AAAA'') = Some [0, 0, 0] \<and>
          decryptBody W (js ''AAAA'') (js ''0xab'') = Inl e \<and> e \<noteq> OperationError)"
proof
  assume "\<exists>W e. atob W (js ''AAAA'') = Some [0, 0, 0] \<and>
          decryptBody W (js ''AAAA'') (js ''0xab'') = Inl e \<and> e \<noteq> OperationError"
  then obtain W e where h: "atob W (js ''AAAA'') = Some [0, 0, 0]"
    "decryptBody W (js ''AAAA'') (js ''0xab'') = Inl e" "e \<noteq> OperationError" by blast
  from h(2) have "e = OperationError"
    unfolding decryptBody_decoded[OF h(1)] by (simp add: subtle_decrypt_short)
  with h(3) show False by simp
qed

text \<open>
  On the example platform, whose \<open>atob\<close> is the identity: a blob of 4 bytes, and a
  blob of 28 zero bytes whose tag does not verify.
\<close>

theorem decryptBody_short_blob_witness:
  "atob examplePlatform (js ''AAAA'') = Some (js ''AAAA'') \<and> length (js ''AAAA'') < 28 \<and>
   decryptBody examplePlatform (js ''AAAA'') (js ''0xab'') = Inl OperationError \<and>
   atob examplePlatform (replicate 28 0) = Some (replicate 28 0) \<and>
   AES_GCM_open examplePlatform (deriveKey examplePlatform (js ''0xab''))
     (take 12 (map ucast (replicate 28 (0 :: 16 word))))
     (drop 12 (map ucast (replicate 28 (0 :: 16 word)))) = None \<and>
   decryptBody examplePlatform (replicate 28 0) (js ''0xab'') = Inl OperationError"
proof -
  have a: "atob examplePlatform (js ''AAAA'') = Some (js ''AAAA'')" by (simp add: example_fields)
  have b: "length (js ''AAAA'') < 28" by (simp add: js_def)
  have c: "atob examplePlatform (replicate 28 0) = Some (replicate 28 0)"
    by (simp add: example_fields)
  have kab: "hexToBytes (js ''0xab'') = [0xab]" by (simp add: hexEval)
  have d: "AES_GCM_open examplePlatform (deriveKey examplePlatform (js ''0xab''))
     (take 12 (map ucast (replicate 28 (0 :: 16 word))))
     (drop 12 (map ucast (replicate 28 (0 :: 16 word)))) = None"
    by code_simp
  note t1 = decryptBody_short_blob[of examplePlatform "js ''AAAA''" "js ''AAAA''" "js ''0xab''"]
  note t2 = decryptBody_short_blob[of examplePlatform "replicate 28 0" "replicate 28 0" "js ''0xab''"]
  from t1 a b have r1: "decryptBody examplePlatform (js ''AAAA'') (js ''0xab'') = Inl OperationError"
    by blast
  from t2 c d have r2: "decryptBody examplePlatform (replicate 28 0) (js ''0xab'') = Inl OperationError"
    by blast
  from a b c d r1 r2 show ?thesis by blast
qed

section \<open>Properties of the re-encryption handshake\<close>

subsection \<open>Auxiliary facts\<close>

lemma decimal_small: "n < 10 \<Longrightarrow> decimal n = [0x30 + of_nat n]"
  by (simp add: decimal.simps)

lemma decimal_large:
  "10 \<le> n \<Longrightarrow> decimal n = decimal (n div 10) @ [0x30 + of_nat (n mod 10)]"
  by (subst decimal.simps) simp

lemma session_fields:
  "calls (setMessage h i v st) = calls st"
  "calls (setKeyLoading h i b st) = calls st"
  "calls (setDecryptedKeys h i v st) = calls st"
  "calls (called c st) = calls st @ [c]"
  "keypairsDrawn (setMessage h i v st) = keypairsDrawn st"
  "keypairsDrawn (setKeyLoading h i b st) = keypairsDrawn st"
  "keypairsDrawn (setDecryptedKeys h i v st) = keypairsDrawn st"
  "keypairsDrawn (called c st) = keypairsDrawn st"
  "decryptedKeys (setMessage h i v st) = decryptedKeys st"
  "decryptedKeys (setKeyLoading h i b st) = decryptedKeys st"
  "decryptedKeys (setDecryptedKeys h i v st) = (decryptedKeys st)(toNumber h i \<mapsto> v)"
  "decryptedKeys (called c st) = decryptedKeys st"
  "messages (setMessage h i v st) = (messages st)(toNumber h i \<mapsto> v)"
  "messages (setKeyLoading h i b st) = messages st"
  "messages (setDecryptedKeys h i v st) = messages st"
  "messages (called c st) = messages st"
  "keyLoading (setMessage h i v st) = keyLoading st"
  "keyLoading (setKeyLoading h i b st) = (keyLoading st)(toNumber h i \<mapsto> b)"
  "keyLoading (setDecryptedKeys h i v st) = keyLoading st"
  "keyLoading (called c st) = keyLoading st"
  by (simp_all add: setMessage_def setKeyLoading_def setDecryptedKeys_def called_def)

lemma tryDecrypt_calls:
  assumes "tryDecrypt h inst addr signer now doc st = (r, st')"
  defines "kp \<equiv> generateKeypair inst (keypairsDrawn st)"
    and "start \<equiv> decimal (now div 1000)"
  defines "g \<equiv> [GenerateKeypair (keypairsDrawn st),
                  CreateEIP712 (publicKey kp) [normalizedContract h] start (js ''7'')]"
  shows "keypairsDrawn st' = keypairsDrawn st + 1"
    and "(createEIP712 inst (publicKey kp) [normalizedContract h] start (js ''7'') = None \<and>
           calls st' = calls st @ g \<and> r = None) \<or>
         (\<exists>e. createEIP712 inst (publicKey kp) [normalizedContract h] start (js ''7'') = Some e \<and>
            ((signTypedData signer (eip_domain e) (eip_types_UserDecryptRequestVerification e)
                (eip_message e) = None \<and>
              calls st' = calls st @ g @ [SignTypedData (eip_domain e)
                (eip_types_UserDecryptRequestVerification e) (eip_message e)] \<and> r = None) \<or>
             (\<exists>sig. signTypedData signer (eip_domain e)
                  (eip_types_UserDecryptRequestVerification e) (eip_message e) = Some sig \<and>
                calls st' = calls st @ g @ [SignTypedData (eip_domain e)
                  (eip_types_UserDecryptRequestVerification e) (eip_message e),
                  UserDecrypt \<lparr>arg_handleContractPairs =
                      [\<lparr>handle = doc_encryptedAccessKey doc,
                        contractAddress = normalizedContract h\<rparr>],
                    arg_privateKey = privateKey kp,
                    arg_publicKey = publicKey kp,
                    arg_signature = replaceFirst0x sig,
                    arg_contractAddresses = [normalizedContract h],
                    arg_userAddress = addr,
                    arg_startTimeStamp = start,
                    arg_durationDays = js ''7''\<rparr>])))"
    and "decryptedKeys st' =
           (case r of None \<Rightarrow> decryptedKeys st
            | Some key \<Rightarrow> (decryptedKeys st)(toNumber h (doc_id doc) \<mapsto> key))"
    and "messages st' =
           (case r of None \<Rightarrow> messages st
            | Some key \<Rightarrow> (messages st)(toNumber h (doc_id doc) \<mapsto> js ''Access key decrypted''))"
    and "keyLoading st' = keyLoading st"
  using assms(1) unfolding kp_def start_def g_def tryDecrypt_def Let_def
  by (auto simp: session_fields split: option.splits if_splits)

lemma decryptAccessKey_guarded:
  assumes "fhevmInstance h = Some inst" "accountAddress h = Some addr" "signerPromise h = Some signer"
    and "decryptAccessKey h now doc st = (r, st')"
  obtains st2 where
    "tryDecrypt h inst addr signer now doc (setKeyLoading h (doc_id doc) True st) = (r, st2)"
    "st' = setKeyLoading h (doc_id doc) False
       (case r of
          None \<Rightarrow> setMessage h (doc_id doc) (js ''Failed to decrypt access key.'') st2
        | Some _ \<Rightarrow> st2)"
proof -
  obtain r2 st2 where
    t: "tryDecrypt h inst addr signer now doc (setKeyLoading h (doc_id doc) True st) = (r2, st2)"
    by (cases "tryDecrypt h inst addr signer now doc (setKeyLoading h (doc_id doc) True st)")
  from assms t have "r2 = r" and "st' = setKeyLoading h (doc_id doc) False
       (case r of
          None \<Rightarrow> setMessage h (doc_id doc) (js ''Failed to decrypt access key.'') st2
        | Some _ \<Rightarrow> st2)"
    by (auto simp: decryptAccessKey_def Let_def)
  with t that show thesis by blast
qed

subsection \<open>The handshake\<close>

text \<open>
  C9. Every run of the handshake, that is every call of \<open>decryptAccessKey\<close> with the
  SDK instance, the account and the signer present, adds to the session's calls, in
  this order and cut off after the first that throws:
  \<^item> \<open>generateKeypair\<close>, once, at the session's next draw, and the count of draws
    goes up by one, so the keypair is newly drawn in this run;
  \<^item> \<open>createEIP712\<close> over that keypair's public key, the contract address, the start
    time \<open>floor(Date.now() / 1000)\<close> in decimal, and the duration \<open>7\<close> (days);
  \<^item> \<open>signTypedData\<close> of the signer over the domain, the
    \<open>UserDecryptRequestVerification\<close> type and the message of that typed data;
  \<^item> \<open>userDecrypt\<close>, whose arguments are the document's handle paired with the
    contract address, the two keys of this run's keypair, the signature without its
    \<open>0x\<close>, the contract address, the account, and the start time and duration that
    were signed.
  A request is submitted only after the typed data was built and signed, and it is
  submitted whenever it was. Of the session's state the run changes only the document's
  entries: the access key it returns, a message and the loading flag; the keypair is
  not stored.
\<close>

theorem decryptAccessKey_handshake:
  assumes "fhevmInstance h = Some inst" and "accountAddress h = Some addr"
    and "signerPromise h = Some signer"
    and "decryptAccessKey h now doc st = (r, st')"
  defines "kp \<equiv> generateKeypair inst (keypairsDrawn st)"
    and "start \<equiv> decimal (now div 1000)"
  defines "built \<equiv> createEIP712 inst (publicKey kp) [normalizedContract h] start (js ''7'')"
  shows "keypairsDrawn st' = keypairsDrawn st + 1 \<and>
    (\<exists>new. calls st' = calls st @ new \<and>
       take 2 new = [GenerateKeypair (keypairsDrawn st),
                     CreateEIP712 (publicKey kp) [normalizedContract h] start (js ''7'')] \<and>
       (\<forall>n. GenerateKeypair n \<in> set new \<longrightarrow> n = keypairsDrawn st) \<and>
       (\<forall>args. UserDecrypt args \<in> set new \<longrightarrow>
          (\<exists>e sig. built = Some e \<and>
             signTypedData signer (eip_domain e) (eip_types_UserDecryptRequestVerification e)
               (eip_message e) = Some sig \<and>
             args = \<lparr>arg_handleContractPairs =
                      [\<lparr>handle = doc_encryptedAccessKey doc,
                        contractAddress = normalizedContract h\<rparr>],
                    arg_privateKey = privateKey kp,
                    arg_publicKey = publicKey kp,
                    arg_signature = replaceFirst0x sig,
                    arg_contractAddresses = [normalizedContract h],
                    arg_userAddress = addr,
                    arg_startTimeStamp = start,
                    arg_durationDays = js ''7''\<rparr> \<and>
             new = [GenerateKeypair (keypairsDrawn st),
                    CreateEIP712 (publicKey kp) [normalizedContract h] start (js ''7''),
                    SignTypedData (eip_domain e) (eip_types_UserDecryptRequestVerification e)
                      (eip_message e),
                    UserDecrypt args])) \<and>
       (\<forall>e sig. built = Some e \<and>
          signTypedData signer (eip_domain e) (eip_types_UserDecryptRequestVerification e)
            (eip_message e) = Some sig \<longrightarrow>
          (\<exists>args. UserDecrypt args \<in> set new))) \<and>
    decryptedKeys st' =
      (case r of None \<Rightarrow> decryptedKeys st
       | Some key \<Rightarrow> (decryptedKeys st)(toNumber h (doc_id doc) \<mapsto> key)) \<and>
    messages st' = (messages st)(toNumber h (doc_id doc) \<mapsto>
      (case r of None \<Rightarrow> js ''Failed to decrypt access key.''
       | Some key \<Rightarrow> js ''Access key decrypted'')) \<and>
    keyLoading st' = (keyLoading st)(toNumber h (doc_id doc) \<mapsto> False)"
proof -
  from assms(1-4) obtain st2 where
    t: "tryDecrypt h inst addr signer now doc (setKeyLoading h (doc_id doc) True st) = (r, st2)"
    and st': "st' = setKeyLoading h (doc_id doc) False
       (case r of
          None \<Rightarrow> setMessage h (doc_id doc) (js ''Failed to decrypt access key.'') st2
        | Some _ \<Rightarrow> st2)"
    by (rule decryptAccessKey_guarded)
  let ?st1 = "setKeyLoading h (doc_id doc) True st"
  let ?g = "[GenerateKeypair (keypairsDrawn st),
             CreateEIP712 (publicKey kp) [normalizedContract h] start (js ''7'')]"
  note c = tryDecrypt_calls[OF t, unfolded session_fields, folded kp_def start_def,
      folded built_def]
  have calls': "calls st' = calls st2" and drawn': "keypairsDrawn st' = keypairsDrawn st2"
    unfolding st' by (simp_all add: session_fields split: option.splits)
  have d: "keypairsDrawn st' = keypairsDrawn st + 1" using c(1) drawn' by simp
  obtain new where new: "calls st2 = calls st @ new"
    and shape: "new = ?g \<and> built = None \<or>
      (\<exists>e. built = Some e \<and>
         (new = ?g @ [SignTypedData (eip_domain e) (eip_types_UserDecryptRequestVerification e)
                  (eip_message e)] \<and>
          signTypedData signer (eip_domain e) (eip_types_UserDecryptRequestVerification e)
            (eip_message e) = None \<or>
          (\<exists>sig. signTypedData signer (eip_domain e)
               (eip_types_UserDecryptRequestVerification e) (eip_message e) = Some sig \<and>
             new = ?g @ [SignTypedData (eip_domain e) (eip_types_UserDecryptRequestVerification e)
                  (eip_message e),
               UserDecrypt \<lparr>arg_handleContractPairs =
                      [\<lparr>handle = doc_encryptedAccessKey doc,
                        contractAddress = normalizedContract h\<rparr>],
                    arg_privateKey = privateKey kp,
                    arg_publicKey = publicKey kp,
                    arg_signature = replaceFirst0x sig,
                    arg_contractAddresses = [normalizedContract h],
                    arg_userAddress = addr,
                    arg_startTimeStamp = start,
                    arg_durationDays = js ''7''\<rparr>])))"
    using c(2) by auto
  have a1: "take 2 new = ?g" using shape by auto
  have a2: "\<forall>n. GenerateKeypair n \<in> set new \<longrightarrow> n = keypairsDrawn st" using shape by auto
  have a3: "\<forall>args. UserDecrypt args \<in> set new \<longrightarrow>
          (\<exists>e sig. built = Some e \<and>
             signTypedData signer (eip_domain e) (eip_types_UserDecryptRequestVerification e)
               (eip_message e) = Some sig \<and>
             args = \<lparr>arg_handleContractPairs =
                      [\<lparr>handle = doc_encryptedAccessKey doc,
                        contractAddress = normalizedContract h\<rparr>],
                    arg_privateKey = privateKey kp,
                    arg_publicKey = publicKey kp,
                    arg_signature = replaceFirst0x sig,
                    arg_contractAddresses = [normalizedContract h],
                    arg_userAddress = addr,
                    arg_startTimeStamp = start,
                    arg_durationDays = js ''7''\<rparr> \<and>
             new = [GenerateKeypair (keypairsDrawn st),
                    CreateEIP712 (publicKey kp) [normalizedContract h] start (js ''7''),
                    SignTypedData (eip_domain e) (eip_types_UserDecryptRequestVerification e)
                      (eip_message e),
                    UserDecrypt args])"
    using shape by auto
  have a4: "\<forall>e sig. built = Some e \<and>
          signTypedData signer (eip_domain e) (eip_types_UserDecryptRequestVerification e)
            (eip_message e) = Some sig \<longrightarrow>
          (\<exists>args. UserDecrypt args \<in> set new)"
    using shape by auto
  have u1: "decryptedKeys st' =
      (case r of None \<Rightarrow> decryptedKeys st
       | Some key \<Rightarrow> (decryptedKeys st)(toNumber h (doc_id doc) \<mapsto> key))"
    unfolding st' using c(3) by (simp add: session_fields split: option.splits)
  have u2: "messages st' = (messages st)(toNumber h (doc_id doc) \<mapsto>
      (case r of None \<Rightarrow> js ''Failed to decrypt access key.''
       | Some key \<Rightarrow> js ''Access key decrypted''))"
    unfolding st' using c(4) by (simp add: session_fields split: option.splits)
  have u3: "keyLoading st' = (keyLoading st)(toNumber h (doc_id doc) \<mapsto> False)"
    unfolding st' using c(5) by (simp add: session_fields split: option.splits)
  from d new calls' a1 a2 a3 a4 u1 u2 u3 show ?thesis by metis
qed

lemma toString16_small: "n < 16 \<Longrightarrow> toString16 n = [hexChar n]"
  by (simp add: toString16.simps)

lemma toString16_large:
  "16 \<le> n \<Longrightarrow> toString16 n = toString16 (n div 16) @ [hexChar (n mod 16)]"
  by (subst toString16.simps) simp

lemma example_start: "decimal (1762128000123 div 1000) = js ''1762128000''"
  by (simp add: decimal_small decimal_large js_def)

lemma example_hex: "toString16 0x1234 = js ''1234''"
  by (simp add: toString16_small toString16_large hexChar_def js_def)

lemma example_keyHex:
  "js ''0x'' @ padStart 40 0x30 (toString16 0x1234) = js ''0x'' @ replicate 36 0x30 @ js ''1234''"
  unfolding example_hex by (simp add: padStart_def js_def)


lemma js_append: "js a @ js b = js (a @ b)"
  by (simp add: js_def)

lemma replaceFirst0x_js: "replaceFirst0x (js ''0x'' @ m) = m"
  by (simp add: js_def)

lemma example_kp:
  "generateKeypair exampleInstance 0 = \<lparr>publicKey = js ''pk0'', privateKey = js ''sk0''\<rparr>"
  by (simp add: exampleInstance_def decimal_small js_def)

lemma example_try:
  "tryDecrypt exampleHooks exampleInstance (js ''0xA11CE'') exampleSigner 1762128000123 exampleDoc
     (setKeyLoading exampleHooks 1 True emptySession) =
     (Some exampleKey,
      \<lparr>decryptedKeys = [1 \<mapsto> exampleKey],
       messages = [1 \<mapsto> js ''Access key decrypted''],
       keyLoading = [1 \<mapsto> True],
       keypairsDrawn = 1,
       calls = [GenerateKeypair 0,
         CreateEIP712 (js ''pk0'') [js ''0xC0FFEE''] (js ''1762128000'') (js ''7''),
         SignTypedData (js ''Decryption'') (js ''UserDecryptRequestVerification'')
           (js ''pk00xC0FFEE17621280007''),
         UserDecrypt \<lparr>arg_handleContractPairs =
             [\<lparr>handle = js ''0xhandle'', contractAddress = js ''0xC0FFEE''\<rparr>],
           arg_privateKey = js ''sk0'', arg_publicKey = js ''pk0'',
           arg_signature = js ''pk00xC0FFEE17621280007'',
           arg_contractAddresses = [js ''0xC0FFEE''],
           arg_userAddress = js ''0xA11CE'',
           arg_startTimeStamp = js ''1762128000'',
           arg_durationDays = js ''7''\<rparr>]\<rparr>)"
proof -
  have k: "keypairsDrawn (setKeyLoading exampleHooks 1 True emptySession) = 0"
    by (simp add: session_fields emptySession_def)
  have c: "createEIP712 exampleInstance (js ''pk0'') [js ''0xC0FFEE''] (js ''1762128000'') (js ''7'') =
      Some \<lparr>eip_domain = js ''Decryption'',
        eip_types_UserDecryptRequestVerification = js ''UserDecryptRequestVerification'',
        eip_message = js ''pk00xC0FFEE17621280007''\<rparr>"
    by (simp add: exampleInstance_def js_append)
  have sg: "signTypedData exampleSigner d t m = Some (js ''0x'' @ m)" for d t m
    by (simp add: exampleSigner_def)
  have u: "userDecrypt exampleInstance args = Some (\<lambda>x. if x = js ''0xhandle'' then Some 0x1234 else None)"
    for args by (simp add: exampleInstance_def)
  have hk: "normalizedContract exampleHooks = js ''0xC0FFEE''" "getAddress exampleHooks = Some"
    "toNumber exampleHooks = id"
    by (simp_all add: exampleHooks_def)
  have dc: "doc_encryptedAccessKey exampleDoc = js ''0xhandle''" "doc_id exampleDoc = 1"
    by (simp_all add: exampleDoc_def)
  show ?thesis
    unfolding tryDecrypt_def Let_def k example_start example_kp hk dc
    apply (simp only: Keypair.simps c option.case EIP712.simps sg replaceFirst0x_js u
        if_True example_keyHex refl exampleKey_def [symmetric])
    apply (simp add: setMessage_def setDecryptedKeys_def setKeyLoading_def called_def
        emptySession_def hk)
    done
qed


lemma example_run:
  "decryptAccessKey exampleHooks 1762128000123 exampleDoc emptySession =
     (Some exampleKey,
      \<lparr>decryptedKeys = [1 \<mapsto> exampleKey],
       messages = [1 \<mapsto> js ''Access key decrypted''],
       keyLoading = [1 \<mapsto> False],
       keypairsDrawn = 1,
       calls = [GenerateKeypair 0,
         CreateEIP712 (js ''pk0'') [js ''0xC0FFEE''] (js ''1762128000'') (js ''7''),
         SignTypedData (js ''Decryption'') (js ''UserDecryptRequestVerification'')
           (js ''pk00xC0FFEE17621280007''),
         UserDecrypt \<lparr>arg_handleContractPairs =
             [\<lparr>handle = js ''0xhandle'', contractAddress = js ''0xC0FFEE''\<rparr>],
           arg_privateKey = js ''sk0'', arg_publicKey = js ''pk0'',
           arg_signature = js ''pk00xC0FFEE17621280007'',
           arg_contractAddresses = [js ''0xC0FFEE''],
           arg_userAddress = js ''0xA11CE'',
           arg_startTimeStamp = js ''1762128000'',
           arg_durationDays = js ''7''\<rparr>]\<rparr>)"
proof -
  have g: "fhevmInstance exampleHooks = Some exampleInstance"
    "accountAddress exampleHooks = Some (js ''0xA11CE'')"
    "signerPromise exampleHooks = Some exampleSigner" "toNumber exampleHooks = id"
    by (simp_all add: exampleHooks_def)
  have d: "doc_id exampleDoc = 1" by (simp add: exampleDoc_def)
  show ?thesis
    unfolding decryptAccessKey_def
    apply (simp only: g d option.case prod.case Let_def example_try)
    apply (simp add: setKeyLoading_def g)
    done
qed

text \<open>
  A run on the example SDK at \<open>Date.now() = 1762128000123\<close>: the first keypair is
  drawn, the window starts at 1762128000 and lasts 7 days, and \<open>userDecrypt\<close> receives
  what was signed.
\<close>

theorem decryptAccessKey_handshake_witness:
  "fhevmInstance exampleHooks = Some exampleInstance \<and>
   accountAddress exampleHooks = Some (js ''0xA11CE'') \<and>
   signerPromise exampleHooks = Some exampleSigner \<and>
   (\<exists>r st'. decryptAccessKey exampleHooks 1762128000123 exampleDoc emptySession = (r, st') \<and>
      keypairsDrawn st' = keypairsDrawn emptySession + 1 \<and>
      calls st' = [GenerateKeypair 0,
         CreateEIP712 (js ''pk0'') [js ''0xC0FFEE''] (js ''1762128000'') (js ''7''),
         SignTypedData (js ''Decryption'') (js ''UserDecryptRequestVerification'')
           (js ''pk00xC0FFEE17621280007''),
         UserDecrypt \<lparr>arg_handleContractPairs =
             [\<lparr>handle = js ''0xhandle'', contractAddress = js ''0xC0FFEE''\<rparr>],
           arg_privateKey = js ''sk0'', arg_publicKey = js ''pk0'',
           arg_signature = js ''pk00xC0FFEE17621280007'',
           arg_contractAddresses = [js ''0xC0FFEE''],
           arg_userAddress = js ''0xA11CE'',
           arg_startTimeStamp = js ''1762128000'',
           arg_durationDays = js ''7''\<rparr>] \<and>
      decryptedKeys st' = [1 \<mapsto> exampleKey] \<and>
      keyLoading st' = [1 \<mapsto> False])"
proof -
  have g: "fhevmInstance exampleHooks = Some exampleInstance"
    "accountAddress exampleHooks = Some (js ''0xA11CE'')"
    "signerPromise exampleHooks = Some exampleSigner"
    by (simp_all add: exampleHooks_def)
  note t = decryptAccessKey_handshake[OF g example_run]
  from t have "keypairsDrawn
      \<lparr>decryptedKeys = [1 \<mapsto> exampleKey],
       messages = [1 \<mapsto> js ''Access key decrypted''],
       keyLoading = [1 \<mapsto> False],
       keypairsDrawn = 1,
       calls = [GenerateKeypair 0,
         CreateEIP712 (js ''pk0'') [js ''0xC0FFEE''] (js ''1762128000'') (js ''7''),
         SignTypedData (js ''Decryption'') (js ''UserDecryptRequestVerification'')
           (js ''pk00xC0FFEE17621280007''),
         UserDecrypt \<lparr>arg_handleContractPairs =
             [\<lparr>handle = js ''0xhandle'', contractAddress = js ''0xC0FFEE''\<rparr>],
           arg_privateKey = js ''sk0'', arg_publicKey = js ''pk0'',
           arg_signature = js ''pk00xC0FFEE17621280007'',
           arg_contractAddresses = [js ''0xC0FFEE''],
           arg_userAddress = js ''0xA11CE'',
           arg_startTimeStamp = js ''1762128000'',
           arg_durationDays = js ''7''\<rparr>]\<rparr> = keypairsDrawn emptySession + 1"
    by (rule conjunct1)
  with g example_run show ?thesis
    by (intro conjI exI) (assumption | simp)+
qed

end
